theory Spec2Isabelle
  imports Complex_Main "HOL-Library.Sublist"
begin

section \<open>Top models for scattering input: the layer catalogue\<close>

text \<open>
  The repository (\<^verbatim>\<open>parametricSN/models/sn_top_models.py\<close>) assembles modules of a
  deep-learning framework. A framework layer is modelled by its constructor call: the
  arguments the source passes are the fields. Python integers are \<open>int\<close>. The numerical
  stabiliser \<^verbatim>\<open>eps\<close> of a batch normalisation is \<^verbatim>\<open>1e-5\<close> (the framework's default)
  at every call of the source and is not a field.
\<close>

datatype layer =
    Conv2d int int int int int bool
  | BatchNorm2d int bool
  | ReLU bool
  | Linear int int
  | Dropout real
  | AdaptiveAvgPool2d int
  | Pretrained string bool

text \<open>
  \<open>Conv2d in_channels out_channels kernel_size stride padding bias\<close>,
  \<open>BatchNorm2d num_features affine\<close>, \<open>ReLU inplace\<close>,
  \<open>Linear in_features out_features\<close>, \<open>Dropout p\<close>, \<open>AdaptiveAvgPool2d output_size\<close>.
  \<open>Pretrained name pretrained\<close> stands for the feature extractor of a model of the
  pretrained-model repository (everything before its final fully-connected layer).
\<close>

datatype module =
    Layer layer
  | Sequential "module list"
  | BasicBlock (conv1: layer) (bn1: layer) (relu: layer) (conv2: layer) (bn2: layer)
      (downsample: "module option") (stride: int)
  | BasicBlockWRN16_8 (bn1: layer) (conv1: layer) (dropout: layer) (bn2: layer)
      (conv2: layer) (relu: layer) (shortcut: "layer option") (use_conv1x1: bool)

datatype error =
    AttributeError string
  | ValueError string
  | RuntimeError string
  | IndexError

subsection \<open>Constructors\<close>

text \<open>
  The framework refuses to build a layer with a negative size. \<open>nn_Linear\<close> and
  \<open>nn_BatchNorm2d\<close> say so where a constructor of the repository is followed up to
  the error it raises (\<^verbatim>\<open>sn_MLP\<close>, \<^verbatim>\<open>sn_LinearLayer\<close>); limits of memory are not
  modelled. The constructors of the blocks and of the convolutional networks are given as
  the layers they build when every size is non-negative.
\<close>

definition nn_Linear :: "int \<Rightarrow> int \<Rightarrow> error + layer" where
  "nn_Linear fin fout =
     (if fin < 0 \<or> fout < 0
      then Inl (RuntimeError ''trying to create tensor with negative dimension'')
      else Inr (Linear fin fout))"

definition nn_BatchNorm2d :: "int \<Rightarrow> bool \<Rightarrow> error + layer" where
  "nn_BatchNorm2d nf aff =
     (if nf < 0
      then Inl (RuntimeError ''trying to create tensor with negative dimension'')
      else Inr (BatchNorm2d nf aff))"

definition conv3x3 :: "int \<Rightarrow> int \<Rightarrow> int \<Rightarrow> layer" where
  "conv3x3 in_planes out_planes st = Conv2d in_planes out_planes 3 st 1 False"

definition conv1x1 :: "int \<Rightarrow> int \<Rightarrow> int \<Rightarrow> layer" where
  "conv1x1 in_planes out_planes st = Conv2d in_planes out_planes 1 st 0 False"

definition BasicBlock_init :: "int \<Rightarrow> int \<Rightarrow> int \<Rightarrow> module option \<Rightarrow> module" where
  "BasicBlock_init inplanes planes st ds =
     BasicBlock (conv3x3 inplanes planes st) (BatchNorm2d planes True) (ReLU True)
       (conv3x3 planes planes 1) (BatchNorm2d planes True) ds st"

definition BasicBlockWRN16_8_init :: "int \<Rightarrow> int \<Rightarrow> real \<Rightarrow> int \<Rightarrow> module" where
  "BasicBlockWRN16_8_init inplanes planes dp st =
     (if st \<noteq> 1 \<or> inplanes \<noteq> planes
      then BasicBlockWRN16_8 (BatchNorm2d inplanes True) (conv3x3 inplanes planes st)
             (Dropout dp) (BatchNorm2d planes True) (conv3x3 planes planes 1) (ReLU True)
             (Some (conv1x1 inplanes planes st)) True
      else BasicBlockWRN16_8 (BatchNorm2d inplanes True) (conv3x3 inplanes planes st)
             (Dropout dp) (BatchNorm2d planes True) (conv3x3 planes planes 1) (ReLU True)
             None False)"

text \<open>
  \<^verbatim>\<open>sn_CNN._make_layer\<close> reads and assigns \<^verbatim>\<open>self.inplanes\<close>: the attribute is passed
  in and returned. \<^verbatim>\<open>range(1, blocks)\<close> is \<open>[1..blocks - 1]\<close>, empty when
  \<open>blocks \<le> 1\<close>. The later blocks are built with the defaults \<^verbatim>\<open>stride=1\<close> and
  \<^verbatim>\<open>downsample=None\<close> of the block class.
\<close>

definition sn_CNN_make_layer ::
  "(int \<Rightarrow> int \<Rightarrow> int \<Rightarrow> module option \<Rightarrow> module) \<Rightarrow> int \<Rightarrow> int \<Rightarrow> int \<Rightarrow> int \<Rightarrow> module \<times> int"
where
  "sn_CNN_make_layer block self_inplanes planes blocks st =
     (let ds = (if st \<noteq> 1 \<or> self_inplanes \<noteq> planes
                then Some (Sequential [Layer (Conv2d self_inplanes planes 1 st 0 False),
                                       Layer (BatchNorm2d planes True)])
                else None);
          layers = [block self_inplanes planes st ds];
          self_inplanes' = planes;
          layers' = foldl (\<lambda>ls i. ls @ [block self_inplanes' planes 1 None]) layers [1..blocks - 1]
      in (Sequential layers', self_inplanes'))"

section \<open>Tensors, the framework and the forward pass\<close>

text \<open>
  A tensor variable of the source is a reference into a store of tensor values; the store
  also records every layer application, in order. A framework layer computes a new tensor,
  except \<^verbatim>\<open>nn.ReLU(inplace=True)\<close>, which overwrites its argument and returns it;
  \<^verbatim>\<open>out += residual\<close> overwrites \<open>out\<close>. What a layer computes is a parameter
  (\<open>sem\<close>), as are tensor addition (\<open>add\<close>), \<^verbatim>\<open>x.view(x.shape[0], -1)\<close>
  (\<open>flat\<close>) and \<^verbatim>\<open>x.reshape(x.shape[0], -1)\<close> (\<open>flat_copy\<close>, which copies where
  a view is impossible): each returns a value or raises. The parameter stands for the
  layer in the mode and state of the call: what a batch normalisation or a dropout
  computes in training differs from what it computes in evaluation, and the running
  statistics a batch normalisation updates are its own. A dropout in evaluation mode
  returns its argument as it is; the source applies a convolution next, so a copy is
  indistinguishable from it.
\<close>

datatype event = Call layer | IAdd | View | Reshape

record 'a store =
  val :: "nat \<Rightarrow> 'a"
  nxt :: nat
  applied :: "event list"

record 'a torch =
  sem :: "layer \<Rightarrow> 'a \<Rightarrow> error + 'a"
  add :: "'a \<Rightarrow> 'a \<Rightarrow> error + 'a"
  flat :: "'a \<Rightarrow> error + 'a"
  flat_copy :: "'a \<Rightarrow> error + 'a"

type_synonym 'a run = "'a store \<Rightarrow> (error + nat) \<times> 'a store"

definition bnd :: "'a run \<Rightarrow> (nat \<Rightarrow> 'a run) \<Rightarrow> 'a run" where
  "bnd f g s = (case f s of (Inl e, s') \<Rightarrow> (Inl e, s') | (Inr r, s') \<Rightarrow> g r s')"

definition ret :: "nat \<Rightarrow> 'a run" where
  "ret r s = (Inr r, s)"

definition raise :: "error \<Rightarrow> 'a run" where
  "raise e s = (Inl e, s)"

fun is_inplace :: "layer \<Rightarrow> bool" where
  "is_inplace (ReLU ip) = ip"
| "is_inplace _ = False"

definition call :: "'a torch \<Rightarrow> layer \<Rightarrow> nat \<Rightarrow> 'a run" where
  "call T l r s =
     (let s1 = s\<lparr>applied := applied s @ [Call l]\<rparr>
      in case sem T l (val s r) of
           Inl e \<Rightarrow> (Inl e, s1)
         | Inr v \<Rightarrow>
             if is_inplace l then (Inr r, s1\<lparr>val := (val s)(r := v)\<rparr>)
             else (Inr (nxt s), s1\<lparr>val := (val s)(nxt s := v), nxt := Suc (nxt s)\<rparr>))"

definition iadd :: "'a torch \<Rightarrow> nat \<Rightarrow> nat \<Rightarrow> 'a run" where
  "iadd T out res s =
     (let s1 = s\<lparr>applied := applied s @ [IAdd]\<rparr>
      in case add T (val s out) (val s res) of
           Inl e \<Rightarrow> (Inl e, s1)
         | Inr v \<Rightarrow> (Inr out, s1\<lparr>val := (val s)(out := v)\<rparr>))"

definition view :: "'a torch \<Rightarrow> nat \<Rightarrow> 'a run" where
  "view T r s =
     (let s1 = s\<lparr>applied := applied s @ [View]\<rparr>
      in case flat T (val s r) of
           Inl e \<Rightarrow> (Inl e, s1)
         | Inr v \<Rightarrow> (Inr (nxt s), s1\<lparr>val := (val s)(nxt s := v), nxt := Suc (nxt s)\<rparr>))"

definition reshape :: "'a torch \<Rightarrow> nat \<Rightarrow> 'a run" where
  "reshape T r s =
     (let s1 = s\<lparr>applied := applied s @ [Reshape]\<rparr>
      in case flat_copy T (val s r) of
           Inl e \<Rightarrow> (Inl e, s1)
         | Inr v \<Rightarrow> (Inr (nxt s), s1\<lparr>val := (val s)(nxt s := v), nxt := Suc (nxt s)\<rparr>))"

text \<open>
  The forward pass of a module. \<^verbatim>\<open>nn.Sequential\<close> feeds each module's result to the
  next. \<^verbatim>\<open>BasicBlock.forward\<close> and \<^verbatim>\<open>BasicBlockWRN16_8.forward\<close> follow the source
  line by line; \<^verbatim>\<open>residual = x\<close> and \<^verbatim>\<open>shortcut = x\<close> copy the reference. Reading
  \<^verbatim>\<open>self.shortcut\<close> on a block that never assigned it raises.
\<close>

fun forward :: "'a torch \<Rightarrow> module \<Rightarrow> nat \<Rightarrow> 'a run"
  and forward_seq :: "'a torch \<Rightarrow> module list \<Rightarrow> nat \<Rightarrow> 'a run"
where
  "forward T (Layer l) x = call T l x"
| "forward T (Sequential ms) x = forward_seq T ms x"
| "forward T (BasicBlock c1 b1 rl c2 b2 ds st) x =
     bnd (call T c1 x) (\<lambda>out.
     bnd (call T b1 out) (\<lambda>out.
     bnd (call T rl out) (\<lambda>out.
     bnd (call T c2 out) (\<lambda>out.
     bnd (call T b2 out) (\<lambda>out.
     bnd (case ds of None \<Rightarrow> ret x | Some d \<Rightarrow> forward T d x) (\<lambda>residual.
     bnd (iadd T out residual) (\<lambda>out.
     call T rl out)))))))"
| "forward T (BasicBlockWRN16_8 b1 c1 dr b2 c2 rl sc use) x =
     bnd (call T b1 x) (\<lambda>out.
     bnd (call T rl out) (\<lambda>out.
     bnd (if use then (case sc of None \<Rightarrow> raise (AttributeError ''shortcut'')
                                | Some c \<Rightarrow> call T c out)
          else ret x) (\<lambda>shortcut'.
     bnd (call T c1 out) (\<lambda>out.
     bnd (call T b2 out) (\<lambda>out.
     bnd (call T rl out) (\<lambda>out.
     bnd (call T dr out) (\<lambda>out.
     bnd (call T c2 out) (\<lambda>out.
     iadd T out shortcut'))))))))"
| "forward_seq T [] x = ret x"
| "forward_seq T (m # ms) x = bnd (forward T m x) (forward_seq T ms)"


section \<open>The model classes\<close>

subsection \<open>\<^verbatim>\<open>sn_MLP\<close> and \<^verbatim>\<open>sn_LinearLayer\<close>\<close>

text \<open>
  Both constructors build their first linear layer and then read
  \<^verbatim>\<open>self.n_coefficients\<close>. The attributes assigned so far are an association list,
  and reading an attribute that was never assigned raises, as
  \<^verbatim>\<open>nn.Module.__getattr__\<close> does. \<^verbatim>\<open>sn_LinearLayer.__init__\<close> assigns the
  attribute first; \<^verbatim>\<open>sn_MLP.__init__\<close> assigns only \<^verbatim>\<open>num_classes\<close>.
\<close>

definition getattr :: "(string \<times> int) list \<Rightarrow> string \<Rightarrow> error + int" where
  "getattr self name =
     (case map_of self name of None \<Rightarrow> Inl (AttributeError name) | Some v \<Rightarrow> Inr v)"

record sn_MLP =
  mlp_num_classes :: int
  mlp_layers :: module

definition sn_MLP_init :: "int \<Rightarrow> int \<Rightarrow> int \<Rightarrow> int \<Rightarrow> error + sn_MLP" where
  "sn_MLP_init num_classes n_coefficients M_coefficient N_coefficient =
     (let self = [(''num_classes'', num_classes)]
      in case nn_Linear (3 * M_coefficient * N_coefficient * n_coefficients) 512 of
           Inl e \<Rightarrow> Inl e
         | Inr fc1 \<Rightarrow>
     (case getattr self ''n_coefficients'' of
           Inl e \<Rightarrow> Inl e
         | Inr self_n_coefficients \<Rightarrow>
     (case nn_BatchNorm2d (self_n_coefficients * 3) True of
           Inl e \<Rightarrow> Inl e
         | Inr bn \<Rightarrow>
     (case nn_Linear 64 num_classes of
           Inl e \<Rightarrow> Inl e
         | Inr fc5 \<Rightarrow>
             Inr \<lparr>mlp_num_classes = num_classes,
                  mlp_layers = Sequential
                    [Layer bn,
                     Layer fc1,
                     Layer (ReLU False),
                     Layer (Linear 512 256),
                     Layer (ReLU False),
                     Layer (Linear 256 128),
                     Layer (ReLU False),
                     Layer (Linear 128 64),
                     Layer (ReLU False),
                     Layer fc5]\<rparr>))))"

definition sn_MLP_forward :: "'a torch \<Rightarrow> sn_MLP \<Rightarrow> nat \<Rightarrow> 'a run" where
  "sn_MLP_forward T self x =
     bnd (view T x) (\<lambda>x.
     forward T (mlp_layers self) x)"

record sn_LinearLayer =
  lin_n_coefficients :: int
  lin_num_classes :: int
  lin_fc1 :: layer
  lin_bn0 :: layer

definition sn_LinearLayer_init :: "int \<Rightarrow> int \<Rightarrow> int \<Rightarrow> int \<Rightarrow> error + sn_LinearLayer" where
  "sn_LinearLayer_init num_classes n_coefficients M_coefficient N_coefficient =
     (let self = [(''n_coefficients'', n_coefficients), (''num_classes'', num_classes)]
      in case nn_Linear (3 * M_coefficient * N_coefficient * n_coefficients) num_classes of
           Inl e \<Rightarrow> Inl e
         | Inr fc1 \<Rightarrow>
     (case getattr self ''n_coefficients'' of
           Inl e \<Rightarrow> Inl e
         | Inr self_n_coefficients \<Rightarrow>
     (case nn_BatchNorm2d (self_n_coefficients * 3) True of
           Inl e \<Rightarrow> Inl e
         | Inr bn0 \<Rightarrow>
             Inr \<lparr>lin_n_coefficients = n_coefficients, lin_num_classes = num_classes,
                  lin_fc1 = fc1, lin_bn0 = bn0\<rparr>)))"

definition sn_LinearLayer_forward :: "'a torch \<Rightarrow> sn_LinearLayer \<Rightarrow> nat \<Rightarrow> 'a run" where
  "sn_LinearLayer_forward T self x =
     bnd (call T (lin_bn0 self) x) (\<lambda>x.
     bnd (reshape T x) (\<lambda>x.
     call T (lin_fc1 self) x))"

subsection \<open>\<^verbatim>\<open>sn_CNN\<close>\<close>

text \<open>
  \<^verbatim>\<open>self.layer1\<close> is assigned only when \<^verbatim>\<open>standard\<close> holds and \<^verbatim>\<open>self.K\<close> only
  when it does not: both are optional fields.
\<close>

record sn_CNN =
  cnn_bn0 :: layer
  cnn_inplanes :: int
  cnn_ichannels :: int
  cnn_in_channels :: int
  cnn_num_classes :: int
  cnn_init_conv :: module
  cnn_layer1 :: "module option"
  cnn_standard :: bool
  cnn_K :: "int option"
  cnn_layer2 :: module
  cnn_layer3 :: module
  cnn_avgpool :: layer
  cnn_fc :: layer


definition sn_CNN_forward :: "'a torch \<Rightarrow> sn_CNN \<Rightarrow> nat \<Rightarrow> 'a run" where
  "sn_CNN_forward T self x =
     bnd (call T (cnn_bn0 self) x) (\<lambda>x.
     bnd (forward T (cnn_init_conv self) x) (\<lambda>x.
     bnd (if cnn_standard self
          then (case cnn_layer1 self of
                  None \<Rightarrow> raise (AttributeError ''layer1'')
                | Some l1 \<Rightarrow> forward T l1 x)
          else ret x) (\<lambda>x.
     bnd (forward T (cnn_layer2 self) x) (\<lambda>x.
     bnd (forward T (cnn_layer3 self) x) (\<lambda>x.
     bnd (call T (cnn_avgpool self) x) (\<lambda>x.
     bnd (view T x) (\<lambda>x.
     call T (cnn_fc self) x)))))))"

subsection \<open>\<^verbatim>\<open>sn_Resnet50\<close>\<close>

text \<open>
  The pretrained-model repository is not part of this one. Its ResNet is a feature
  extractor followed by the fully-connected layer \<^verbatim>\<open>fc\<close>, and its forward pass applies
  the two in this order; its loader \<^verbatim>\<open>models.resnet50\<close> is a parameter of the
  constructor. \<^verbatim>\<open>fc.in_features\<close> exists on a linear layer only.
\<close>

record resnet =
  rn_features :: layer
  rn_fc :: layer

fun in_features :: "layer \<Rightarrow> error + int" where
  "in_features (Linear fin fout) = Inr fin"
| "in_features _ = Inl (AttributeError ''in_features'')"

definition resnet_forward :: "'a torch \<Rightarrow> resnet \<Rightarrow> nat \<Rightarrow> 'a run" where
  "resnet_forward T m x =
     bnd (call T (rn_features m) x) (\<lambda>x.
     call T (rn_fc m) x)"

record sn_Resnet50 =
  r50_model_ft :: resnet
  r50_num_classes :: int

definition sn_Resnet50_init :: "(bool \<Rightarrow> resnet) \<Rightarrow> int \<Rightarrow> error + sn_Resnet50" where
  "sn_Resnet50_init models_resnet50 num_classes =
     (let model_ft = models_resnet50 True
      in case in_features (rn_fc model_ft) of
           Inl e \<Rightarrow> Inl e
         | Inr num_ftrs \<Rightarrow>
             Inr \<lparr>r50_model_ft = model_ft\<lparr>rn_fc := Linear num_ftrs num_classes\<rparr>,
                  r50_num_classes = num_classes\<rparr>)"

definition sn_Resnet50_forward :: "'a torch \<Rightarrow> sn_Resnet50 \<Rightarrow> nat \<Rightarrow> 'a run" where
  "sn_Resnet50_forward T self x = resnet_forward T (r50_model_ft self) x"

subsection \<open>\<^verbatim>\<open>WideResNet16_8\<close>\<close>

text \<open>
  \<^verbatim>\<open>_make_layer\<close> assigns \<^verbatim>\<open>self.inplanes\<close> inside its loop; \<^verbatim>\<open>range(blocks)\<close> is
  \<open>[0..blocks - 1]\<close>. \<^verbatim>\<open>//\<close> rounds down, as \<open>div\<close> on \<open>int\<close> does. The constructor's
  last loop re-initialises the convolution weights; weights are not part of a layer here.
\<close>

definition WideResNet16_8_make_layer :: "int \<Rightarrow> int \<Rightarrow> int \<Rightarrow> real \<Rightarrow> int \<Rightarrow> module \<times> int" where
  "WideResNet16_8_make_layer self_inplanes planes blocks dp st =
     (let (layers, self_inplanes') =
            foldl (\<lambda>(layers, inp) i.
                     (layers @ [BasicBlockWRN16_8_init inp planes dp (if i = 0 then st else 1)],
                      planes))
                  ([], self_inplanes) [0..blocks - 1]
      in (Sequential layers, self_inplanes'))"

record WideResNet16_8 =
  wrn_inplanes :: int
  wrn_conv :: layer
  wrn_layer1 :: module
  wrn_layer2 :: module
  wrn_layer3 :: module
  wrn_bn :: layer
  wrn_relu :: layer
  wrn_avgpool :: layer
  wrn_fc :: layer

definition WideResNet16_8_init :: "int \<Rightarrow> int \<Rightarrow> int \<Rightarrow> real \<Rightarrow> WideResNet16_8" where
  "WideResNet16_8_init depth width num_classes dp =
     (let layer = (depth - 4) div 6;
          inp0 = 16;
          conv = conv3x3 3 16 1;
          (layer1, inp1) = WideResNet16_8_make_layer inp0 (16 * width) layer dp 1;
          (layer2, inp2) = WideResNet16_8_make_layer inp1 (32 * width) layer dp 2;
          (layer3, inp3) = WideResNet16_8_make_layer inp2 (64 * width) layer dp 2
      in \<lparr>wrn_inplanes = inp3, wrn_conv = conv,
          wrn_layer1 = layer1, wrn_layer2 = layer2, wrn_layer3 = layer3,
          wrn_bn = BatchNorm2d (64 * width) True, wrn_relu = ReLU True,
          wrn_avgpool = AdaptiveAvgPool2d 1, wrn_fc = Linear (64 * width) num_classes\<rparr>)"

definition WideResNet16_8_forward :: "'a torch \<Rightarrow> WideResNet16_8 \<Rightarrow> nat \<Rightarrow> 'a run" where
  "WideResNet16_8_forward T self x =
     bnd (call T (wrn_conv self) x) (\<lambda>x.
     bnd (forward T (wrn_layer1 self) x) (\<lambda>x.
     bnd (forward T (wrn_layer2 self) x) (\<lambda>x.
     bnd (forward T (wrn_layer3 self) x) (\<lambda>x.
     bnd (call T (wrn_bn self) x) (\<lambda>x.
     bnd (call T (wrn_relu self) x) (\<lambda>x.
     bnd (call T (wrn_avgpool self) x) (\<lambda>x.
     bnd (view T x) (\<lambda>x.
     call T (wrn_fc self) x))))))))"

text \<open>
  \<^verbatim>\<open>countLearnableParams\<close> loops over the tensors \<^verbatim>\<open>self.parameters()\<close> yields; a
  parameter tensor has its number of elements and its \<^verbatim>\<open>requires_grad\<close> flag.
\<close>

record tensor =
  numel :: nat
  requires_grad :: bool

fun count_loop :: "tensor list \<Rightarrow> int \<Rightarrow> int" where
  "count_loop [] count = count"
| "count_loop (t # ts) count = count_loop ts (count + int (numel t))"

definition countLearnableParams :: "tensor list \<Rightarrow> int" where
  "countLearnableParams self_parameters = count_loop self_parameters 0"

section \<open>Reading a run\<close>

text \<open>
  The modules of a \<^verbatim>\<open>nn.Sequential\<close>; the outcome of a run (the error raised or the value
  of the returned tensor); the events a run added to the record.
\<close>

fun modules_of :: "module \<Rightarrow> module list" where
  "modules_of (Sequential ms) = ms"
| "modules_of _ = []"

fun outcome :: "(error + nat) \<times> 'a store \<Rightarrow> error + 'a" where
  "outcome (Inl e, s) = Inl e"
| "outcome (Inr r, s) = Inr (val s r)"

definition new_events :: "'a store \<Rightarrow> (error + nat) \<times> 'a store \<Rightarrow> event list" where
  "new_events s rs = drop (length (applied s)) (applied (snd rs))"

fun returns :: "(error + nat) \<times> 'a store \<Rightarrow> bool" where
  "returns (Inl e, s) = False"
| "returns (Inr r, s) = True"

subsection \<open>The function a module computes\<close>

text \<open>
  The mathematical reading of a module, on tensor values and without a store: layers are
  composed as functions, and an error of an inner application is the error of the whole
  expression. A basic block is \<open>relu (bn2 (conv2 (relu (bn1 (conv1 x)))) + r)\<close> with
  \<open>r\<close> the downsampled input or the input; a wide block adds the shortcut to
  \<open>conv2 (dropout (relu (bn2 (conv1 a))))\<close> where \<open>a = relu (bn1 x)\<close>.
\<close>

definition ebind :: "error + 'a \<Rightarrow> ('a \<Rightarrow> error + 'b) \<Rightarrow> error + 'b" where
  "ebind m f = (case m of Inl e \<Rightarrow> Inl e | Inr v \<Rightarrow> f v)"

fun denote :: "'a torch \<Rightarrow> module \<Rightarrow> 'a \<Rightarrow> error + 'a"
  and denote_seq :: "'a torch \<Rightarrow> module list \<Rightarrow> 'a \<Rightarrow> error + 'a"
where
  "denote T (Layer l) x = sem T l x"
| "denote T (Sequential ms) x = denote_seq T ms x"
| "denote T (BasicBlock c1 b1 rl c2 b2 ds st) x =
     ebind (sem T c1 x) (\<lambda>a.
     ebind (sem T b1 a) (\<lambda>a.
     ebind (sem T rl a) (\<lambda>a.
     ebind (sem T c2 a) (\<lambda>a.
     ebind (sem T b2 a) (\<lambda>a.
     ebind (case ds of None \<Rightarrow> Inr x | Some d \<Rightarrow> denote T d x) (\<lambda>r.
     ebind (add T a r) (\<lambda>a.
     sem T rl a)))))))"
| "denote T (BasicBlockWRN16_8 b1 c1 dr b2 c2 rl sc use) x =
     ebind (sem T b1 x) (\<lambda>a.
     ebind (sem T rl a) (\<lambda>a.
     ebind (if use then (case sc of None \<Rightarrow> Inl (AttributeError ''shortcut'')
                                  | Some c \<Rightarrow> sem T c a)
            else Inr x) (\<lambda>r.
     ebind (sem T c1 a) (\<lambda>b.
     ebind (sem T b2 b) (\<lambda>b.
     ebind (sem T rl b) (\<lambda>b.
     ebind (sem T dr b) (\<lambda>b.
     ebind (sem T c2 b) (\<lambda>b.
     add T b r))))))))"
| "denote_seq T [] x = Inr x"
| "denote_seq T (m # ms) x = ebind (denote T m x) (denote_seq T ms)"

text \<open>
  A block keeps a reference to its input for the skip connection. The reading above is
  the block's when its first layer returns a new tensor (and the shortcut layer does), as
  the convolutions and batch normalisations of the constructors do.
\<close>

fun fresh_first :: "module \<Rightarrow> bool"
  and fresh_first_seq :: "module list \<Rightarrow> bool"
where
  "fresh_first (Layer l) = True"
| "fresh_first (Sequential ms) = fresh_first_seq ms"
| "fresh_first (BasicBlock c1 b1 rl c2 b2 ds st) =
     (\<not> is_inplace c1 \<and> (case ds of None \<Rightarrow> True | Some d \<Rightarrow> fresh_first d))"
| "fresh_first (BasicBlockWRN16_8 b1 c1 dr b2 c2 rl sc use) =
     (\<not> is_inplace b1 \<and> (case sc of None \<Rightarrow> True | Some c \<Rightarrow> \<not> is_inplace c))"
| "fresh_first_seq [] = True"
| "fresh_first_seq (m # ms) = (fresh_first m \<and> fresh_first_seq ms)"

subsection \<open>The topology of a module\<close>

text \<open>The layer applications of a forward pass that returns, read off the module alone.\<close>

fun topo :: "module \<Rightarrow> event list"
  and topo_seq :: "module list \<Rightarrow> event list"
where
  "topo (Layer l) = [Call l]"
| "topo (Sequential ms) = topo_seq ms"
| "topo (BasicBlock c1 b1 rl c2 b2 ds st) =
     [Call c1, Call b1, Call rl, Call c2, Call b2]
     @ (case ds of None \<Rightarrow> [] | Some d \<Rightarrow> topo d)
     @ [IAdd, Call rl]"
| "topo (BasicBlockWRN16_8 b1 c1 dr b2 c2 rl sc use) =
     [Call b1, Call rl]
     @ (if use then (case sc of None \<Rightarrow> [] | Some c \<Rightarrow> [Call c]) else [])
     @ [Call c1, Call b2, Call rl, Call dr, Call c2, IAdd]"
| "topo_seq [] = []"
| "topo_seq (m # ms) = topo m @ topo_seq ms"

definition sn_MLP_topo :: "sn_MLP \<Rightarrow> event list" where
  "sn_MLP_topo self = View # topo (mlp_layers self)"

definition sn_LinearLayer_topo :: "sn_LinearLayer \<Rightarrow> event list" where
  "sn_LinearLayer_topo self = [Call (lin_bn0 self), Reshape, Call (lin_fc1 self)]"

definition sn_CNN_topo :: "sn_CNN \<Rightarrow> event list" where
  "sn_CNN_topo self =
     [Call (cnn_bn0 self)] @ topo (cnn_init_conv self)
     @ (if cnn_standard self then (case cnn_layer1 self of None \<Rightarrow> [] | Some l1 \<Rightarrow> topo l1)
        else [])
     @ topo (cnn_layer2 self) @ topo (cnn_layer3 self)
     @ [Call (cnn_avgpool self), View, Call (cnn_fc self)]"

definition sn_Resnet50_topo :: "sn_Resnet50 \<Rightarrow> event list" where
  "sn_Resnet50_topo self =
     [Call (rn_features (r50_model_ft self)), Call (rn_fc (r50_model_ft self))]"

definition WideResNet16_8_topo :: "WideResNet16_8 \<Rightarrow> event list" where
  "WideResNet16_8_topo self =
     [Call (wrn_conv self)] @ topo (wrn_layer1 self) @ topo (wrn_layer2 self)
     @ topo (wrn_layer3 self)
     @ [Call (wrn_bn self), Call (wrn_relu self), Call (wrn_avgpool self), View,
        Call (wrn_fc self)]"

subsection \<open>Counting parameters\<close>

text \<open>
  The number of elements of the parameters that are trained, which is what the name and
  the docstring of \<^verbatim>\<open>countLearnableParams\<close> announce, and of those that are frozen.
\<close>

definition learnable_numel :: "tensor list \<Rightarrow> int" where
  "learnable_numel ps = (\<Sum>t\<leftarrow>filter requires_grad ps. int (numel t))"

definition frozen_numel :: "tensor list \<Rightarrow> int" where
  "frozen_numel ps = (\<Sum>t\<leftarrow>filter (\<lambda>t. \<not> requires_grad t) ps. int (numel t))"

section \<open>Shapes\<close>

text \<open>
  The framework's shape rules, for the run whose tensor values are a shape together with
  a memory layout: the default contiguous one, or channels-last. Tensors have the element
  type and the device of the parameters, and the parameters the layout the constructors
  give them. The rules follow the framework's documentation of each layer and the order
  of its checks:
  a convolution maps \<open>(N, C_in, H, W)\<close> to
  \<open>(N, C_out, (H + 2 * padding - kernel) div stride + 1, ...)\<close>, and an unbatched
  \<open>(C_in, H, W)\<close> likewise; it needs at least one output channel;
  \<^verbatim>\<open>BatchNorm2d\<close> accepts four-dimensional input only and in training mode needs more
  than one value per channel; an input without elements is returned without a look at its
  channels, scaled by the first learnable weight, which does not exist when
  \<open>num_features\<close> is zero; any other input needs \<open>num_features\<close> channels;
  \<^verbatim>\<open>Linear\<close> replaces a last dimension equal to \<open>in_features\<close>;
  adaptive average pooling sets the two spatial dimensions;
  \<^verbatim>\<open>out += residual\<close> needs a residual that broadcasts to the shape of \<open>out\<close>;
  \<^verbatim>\<open>x.view(x.shape[0], -1)\<close> and \<^verbatim>\<open>x.reshape(x.shape[0], -1)\<close> keep the first
  dimension and infer the second, which is ambiguous when the first is zero.
  Convolution, batch normalisation, activation, dropout and pooling keep the layout of a
  four-dimensional input; a linear layer and a flattening return contiguous tensors.
  \<^verbatim>\<open>view\<close> never copies: it raises on a channels-last tensor whose channels and
  spatial dimensions cannot be merged in place, where \<^verbatim>\<open>reshape\<close> copies.
  The feature extractor of the pretrained model is a parameter \<open>bb\<close>.
\<close>

datatype memory_format = Contiguous | ChannelsLast

type_synonym tshape = "nat list \<times> memory_format"

definition conv_out :: "nat \<Rightarrow> int \<Rightarrow> int \<Rightarrow> int \<Rightarrow> error + nat" where
  "conv_out h k st pd =
     (if k \<le> 0 then Inl (RuntimeError ''kernel size must be positive'')
      else if int h + 2 * pd < k
        then Inl (RuntimeError ''kernel size can not be greater than actual input size'')
      else Inr (nat ((int h + 2 * pd - k) div st + 1)))"

definition conv_dims :: "int \<Rightarrow> int \<Rightarrow> int \<Rightarrow> int \<Rightarrow> int \<Rightarrow> nat \<Rightarrow> nat \<Rightarrow> nat
  \<Rightarrow> error + nat \<times> nat \<times> nat" where
  "conv_dims cin cout k st pd c h w =
     (if pd < 0 then Inl (RuntimeError ''negative padding is not supported'')
      else if st \<le> 0 then Inl (RuntimeError ''non-positive stride is not supported'')
      else if cout < 1
        then Inl (RuntimeError ''expected weight to be at least 1 at dimension 0'')
      else if int c \<noteq> cin
        then Inl (RuntimeError ''input channels do not match the weight'')
      else ebind (conv_out h k st pd) (\<lambda>h'.
           ebind (conv_out w k st pd) (\<lambda>w'.
           Inr (nat cout, h', w'))))"

fun layer_dims :: "bool \<Rightarrow> layer \<Rightarrow> nat list \<Rightarrow> error + nat list" where
  "layer_dims tr (Conv2d cin cout k st pd b) xs =
     (case xs of
        [n, c, h, w] \<Rightarrow>
          ebind (conv_dims cin cout k st pd c h w) (\<lambda>(c', h', w'). Inr [n, c', h', w'])
      | [c, h, w] \<Rightarrow>
          ebind (conv_dims cin cout k st pd c h w) (\<lambda>(c', h', w'). Inr [c', h', w'])
      | _ \<Rightarrow> Inl (RuntimeError ''expected 3D or 4D input''))"
| "layer_dims tr (BatchNorm2d nf aff) xs =
     (case xs of
        [n, c, h, w] \<Rightarrow>
          if tr \<and> n * h * w = 1
          then Inl (ValueError ''expected more than 1 value per channel when training'')
          else if n * c * h * w = 0
          then (if aff \<and> nf = 0 then Inl IndexError else Inr [n, c, h, w])
          else if int c \<noteq> nf
          then Inl (RuntimeError ''running_mean should contain as many elements as channels'')
          else Inr [n, c, h, w]
      | _ \<Rightarrow> Inl (ValueError ''expected 4D input''))"
| "layer_dims tr (ReLU ip) xs = Inr xs"
| "layer_dims tr (Linear fin fout) xs =
     (if xs = [] then Inl (RuntimeError ''both arguments to matmul need to be at least 1D'')
      else if int (last xs) = fin \<and> 0 \<le> fout then Inr (butlast xs @ [nat fout])
      else Inl (RuntimeError ''shapes cannot be multiplied''))"
| "layer_dims tr (Dropout pr) xs = Inr xs"
| "layer_dims tr (AdaptiveAvgPool2d os) xs =
     (case xs of
        [n, c, h, w] \<Rightarrow>
          if 0 < c \<and> 0 < h \<and> 0 < w \<and> 0 \<le> os then Inr [n, c, nat os, nat os]
          else Inl (RuntimeError ''expected non-zero size for non-batch dimensions'')
      | [c, h, w] \<Rightarrow>
          if 0 < h \<and> 0 < w \<and> 0 \<le> os then Inr [c, nat os, nat os]
          else Inl (RuntimeError ''expected non-zero size for non-batch dimensions'')
      | _ \<Rightarrow> Inl (RuntimeError ''expected 3D or 4D input''))"
| "layer_dims tr (Pretrained name pre) xs = Inr xs"

fun layer_format :: "layer \<Rightarrow> nat list \<Rightarrow> memory_format \<Rightarrow> memory_format" where
  "layer_format (Linear fin fout) xs f = Contiguous"
| "layer_format l xs f = (if length xs = 4 then f else Contiguous)"

fun layer_shape :: "(tshape \<Rightarrow> error + tshape) \<Rightarrow> bool \<Rightarrow> layer \<Rightarrow> tshape \<Rightarrow> error + tshape"
where
  "layer_shape bb tr (Pretrained name pre) t = bb t"
| "layer_shape bb tr l (xs, f) =
     ebind (layer_dims tr l xs) (\<lambda>ys. Inr (ys, layer_format l ys f))"

fun broadcasts :: "nat list \<Rightarrow> nat list \<Rightarrow> bool" where
  "broadcasts [] ys = True"
| "broadcasts (x # xs) [] = False"
| "broadcasts (x # xs) (y # ys) = ((x = y \<or> x = 1) \<and> broadcasts xs ys)"

fun add_shape :: "tshape \<Rightarrow> tshape \<Rightarrow> error + tshape" where
  "add_shape (out, f) (res, g) =
     (if broadcasts (rev res) (rev out) then Inr (out, f)
      else Inl (RuntimeError ''the size of tensor a must match the size of tensor b''))"

text \<open>
  A channels-last tensor \<open>(N, C, H, W)\<close> can be flattened in place exactly when it has
  no element, a single channel, or a single spatial position.
\<close>

fun viewable :: "tshape \<Rightarrow> bool" where
  "viewable ([n, c, h, w], ChannelsLast) = (c * h * w = 0 \<or> c = 1 \<or> h * w = 1)"
| "viewable t = True"

fun reshape_flat :: "tshape \<Rightarrow> error + tshape" where
  "reshape_flat ([], f) = Inl IndexError"
| "reshape_flat (b # rest, f) =
     (if b = 0 then Inl (RuntimeError ''the unspecified dimension size -1 is ambiguous'')
      else Inr ([b, prod_list rest], Contiguous))"

definition view_flat :: "tshape \<Rightarrow> error + tshape" where
  "view_flat t =
     (case reshape_flat t of
        Inl e \<Rightarrow> Inl e
      | Inr u \<Rightarrow>
          if viewable t then Inr u
          else Inl (RuntimeError ''view size is not compatible with size and stride''))"

definition shapes :: "(tshape \<Rightarrow> error + tshape) \<Rightarrow> bool \<Rightarrow> tshape torch" where
  "shapes bb tr =
     \<lparr>sem = layer_shape bb tr, add = add_shape, flat = view_flat, flat_copy = reshape_flat\<rparr>"

text \<open>A store that holds one tensor, the input of a forward pass.\<close>

definition input :: "'a \<Rightarrow> 'a store" where
  "input v = \<lparr>val = (\<lambda>_. v), nxt = 1, applied = []\<rparr>"

section \<open>What a forward pass may touch\<close>

text \<open>
  Relative to the store \<open>s0\<close> a pass started in, with input \<open>x\<close>: a later store keeps
  the older tensors other than \<open>x\<close>; a reference is in scope when it is \<open>x\<close> or newer
  than \<open>s0\<close>; a run from \<open>s\<close> is framed when its store keeps the older tensors, has
  not shrunk, and the reference it returns is in scope.
\<close>

definition keeps :: "'a store \<Rightarrow> nat \<Rightarrow> 'a store \<Rightarrow> bool" where
  "keeps s0 x s \<longleftrightarrow> nxt s0 \<le> nxt s \<and> (\<forall>q<nxt s0. q \<noteq> x \<longrightarrow> val s q = val s0 q)"

definition inscope :: "'a store \<Rightarrow> nat \<Rightarrow> 'a store \<Rightarrow> nat \<Rightarrow> bool" where
  "inscope s0 x s r \<longleftrightarrow> (r = x \<or> nxt s0 \<le> r) \<and> r < nxt s"

definition framed :: "'a store \<Rightarrow> nat \<Rightarrow> 'a store \<Rightarrow> (error + nat) \<times> 'a store \<Rightarrow> bool" where
  "framed s0 x s rs \<longleftrightarrow>
     keeps s0 x (snd rs) \<and> nxt s \<le> nxt (snd rs)
     \<and> (\<forall>r. fst rs = Inr r \<longrightarrow> inscope s0 x (snd rs) r)"

text \<open>
  A run from \<open>s\<close> is traced by a list of events when the events it adds to the record
  are a prefix of the list, and the whole list when it returns.
\<close>

definition traced :: "'a store \<Rightarrow> (error + nat) \<times> 'a store \<Rightarrow> event list \<Rightarrow> bool" where
  "traced s rs evs \<longleftrightarrow>
     (\<exists>p. applied (snd rs) = applied s @ p \<and> prefix p evs \<and> (returns rs \<longrightarrow> p = evs))"

text \<open>
  Inside a block: the store holds the tensor being transformed at \<open>out\<close> and a second,
  different tensor \<open>q\<close> (the saved input or the shortcut) with value \<open>vq\<close>.
\<close>

definition holding :: "'a store \<Rightarrow> nat \<Rightarrow> nat \<Rightarrow> 'a \<Rightarrow> bool" where
  "holding s out q vq \<longleftrightarrow> out < nxt s \<and> q < nxt s \<and> q \<noteq> out \<and> val s q = vq"

section \<open>Construction\<close>

lemma foldl_append_const: "foldl (\<lambda>ls i. ls @ [b]) xs js = xs @ replicate (length js) b"
  by (induction js arbitrary: xs) (simp_all add: replicate_app_Cons_same)

lemma sn_CNN_make_layer_eq:
  "sn_CNN_make_layer block inp planes blocks st =
     (Sequential
        (block inp planes st
           (if st \<noteq> 1 \<or> inp \<noteq> planes
            then Some (Sequential [Layer (Conv2d inp planes 1 st 0 False),
                                   Layer (BatchNorm2d planes True)])
            else None)
         # replicate (nat (blocks - 1)) (block planes planes 1 None)),
      planes)"
  by (simp add: sn_CNN_make_layer_def Let_def foldl_append_const)

text \<open>
  C10. \<^verbatim>\<open>sn_CNN._make_layer\<close> with the block class \<^verbatim>\<open>BasicBlock\<close> returns a group whose
  first block carries a downsample module exactly when \<open>stride \<noteq> 1\<close> or
  \<^verbatim>\<open>self.inplanes\<close> differs from \<open>planes\<close>, and then it is the 1x1 convolution from
  \<^verbatim>\<open>self.inplanes\<close> to \<open>planes\<close> followed by a batch normalisation; every later
  block is built from \<open>planes\<close> to \<open>planes\<close> with stride 1 and no downsample; and
  \<^verbatim>\<open>self.inplanes\<close> is \<open>planes\<close> afterwards.
\<close>

theorem sn_CNN_make_layer_invariant:
  "let r = sn_CNN_make_layer BasicBlock_init inp planes blocks st;
       g = modules_of (fst r)
   in fst r = Sequential g \<and> g \<noteq> []
    \<and> hd g = BasicBlock_init inp planes st (downsample (hd g))
    \<and> ((downsample (hd g) \<noteq> None) = (st \<noteq> 1 \<or> inp \<noteq> planes))
    \<and> (downsample (hd g) \<noteq> None \<longrightarrow>
         downsample (hd g) = Some (Sequential [Layer (Conv2d inp planes 1 st 0 False),
                                               Layer (BatchNorm2d planes True)]))
    \<and> (\<forall>b \<in> set (tl g). b = BasicBlock_init planes planes 1 None)
    \<and> length (tl g) = nat (blocks - 1)
    \<and> snd r = planes"
  by (simp add: sn_CNN_make_layer_eq BasicBlock_init_def Let_def)

theorem sn_CNN_make_layer_invariant_witness:
  "(128::int) \<noteq> 256
   \<and> downsample (hd (modules_of (fst (sn_CNN_make_layer BasicBlock_init 128 256 4 1))))
       = Some (Sequential [Layer (Conv2d 128 256 1 1 0 False), Layer (BatchNorm2d 256 True)])
   \<and> tl (modules_of (fst (sn_CNN_make_layer BasicBlock_init 128 256 4 1)))
       = replicate 3 (BasicBlock_init 256 256 1 None)
   \<and> snd (sn_CNN_make_layer BasicBlock_init 128 256 4 1) = 256"
proof -
  let ?g = "modules_of (fst (sn_CNN_make_layer BasicBlock_init 128 256 4 1))"
  note inv = sn_CNN_make_layer_invariant [of 128 256 4 1, unfolded Let_def]
  have ds: "downsample (hd ?g) \<noteq> None" using inv by simp
  have all: "\<forall>b \<in> set (tl ?g). b = BasicBlock_init 256 256 1 None" using inv by blast
  have len: "length (tl ?g) = 3" using inv by simp
  have "replicate (length (tl ?g)) (BasicBlock_init 256 256 1 None) = tl ?g"
    using all by (intro replicate_length_same) simp
  then have rest: "tl ?g = replicate 3 (BasicBlock_init 256 256 1 None)"
    using len by simp
  show ?thesis using inv ds rest by simp
qed

subsection \<open>\<^verbatim>\<open>WideResNet16_8\<close>\<close>

lemma wrn_fold_tail:
  "\<forall>i\<in>set js. i \<noteq> 0 \<Longrightarrow>
   foldl (\<lambda>(layers, inp) i.
            (layers @ [BasicBlockWRN16_8_init inp planes dp (if i = 0 then st else 1)], planes))
         (ls, planes) js
   = (ls @ replicate (length js) (BasicBlockWRN16_8_init planes planes dp 1), planes)"
  by (induction js arbitrary: ls) (simp_all add: replicate_app_Cons_same)

lemma upto_zero_split: "0 \<le> j \<Longrightarrow> [0..j] = 0 # [1..j]"
  by (simp add: upto_rec1)

lemma WideResNet16_8_make_layer_eq:
  "WideResNet16_8_make_layer inp planes blocks dp st =
     (Sequential
        (if 0 < blocks
         then BasicBlockWRN16_8_init inp planes dp st
              # replicate (nat (blocks - 1)) (BasicBlockWRN16_8_init planes planes dp 1)
         else []),
      if 0 < blocks then planes else inp)"
proof (cases "0 < blocks")
  case False
  then show ?thesis by (simp add: WideResNet16_8_make_layer_def)
next
  case True
  have u: "[0..blocks - 1] = 0 # [1..blocks - 1]" using True by (simp add: upto_zero_split)
  have nz: "\<forall>i\<in>set [1..blocks - 1]. i \<noteq> 0" by auto
  show ?thesis
    using True by (simp add: WideResNet16_8_make_layer_def u wrn_fold_tail [OF nz])
qed

lemma WideResNet16_8_init_eq:
  "WideResNet16_8_init depth width num_classes dp =
     (let layer = (depth - 4) div 6;
          grp = (\<lambda>inp planes st.
                   Sequential
                     (if 0 < layer
                      then BasicBlockWRN16_8_init inp planes dp st
                           # replicate (nat (layer - 1)) (BasicBlockWRN16_8_init planes planes dp 1)
                      else []))
      in \<lparr>wrn_inplanes = (if 0 < layer then 64 * width else 16), wrn_conv = conv3x3 3 16 1,
          wrn_layer1 = grp 16 (16 * width) 1,
          wrn_layer2 = grp (16 * width) (32 * width) 2,
          wrn_layer3 = grp (32 * width) (64 * width) 2,
          wrn_bn = BatchNorm2d (64 * width) True, wrn_relu = ReLU True,
          wrn_avgpool = AdaptiveAvgPool2d 1, wrn_fc = Linear (64 * width) num_classes\<rparr>)"
  by (simp add: WideResNet16_8_init_def WideResNet16_8_make_layer_eq Let_def)

text \<open>
  C4 (amended). For every depth and width, every block of the three groups of
  \<^verbatim>\<open>WideResNet16_8\<close> is built with \<open>16 * width\<close>, \<open>32 * width\<close> and \<open>64 * width\<close>
  planes, and the final batch normalisation and linear layer take \<open>64 * width\<close>
  features. Each group has \<open>max 0 ((depth - 4) div 6)\<close> blocks, which is
  \<open>(depth - 4) div 6\<close> from depth 4 on, whatever the width.
\<close>

theorem WideResNet16_8_width_scaling:
  "let m = WideResNet16_8_init depth width num_classes dp
   in (\<forall>b \<in> set (modules_of (wrn_layer1 m)).
         \<exists>i s. b = BasicBlockWRN16_8_init i (16 * width) dp s)
    \<and> (\<forall>b \<in> set (modules_of (wrn_layer2 m)).
         \<exists>i s. b = BasicBlockWRN16_8_init i (32 * width) dp s)
    \<and> (\<forall>b \<in> set (modules_of (wrn_layer3 m)).
         \<exists>i s. b = BasicBlockWRN16_8_init i (64 * width) dp s)
    \<and> wrn_bn m = BatchNorm2d (64 * width) True
    \<and> wrn_fc m = Linear (64 * width) num_classes
    \<and> length (modules_of (wrn_layer1 m)) = nat ((depth - 4) div 6)
    \<and> length (modules_of (wrn_layer2 m)) = nat ((depth - 4) div 6)
    \<and> length (modules_of (wrn_layer3 m)) = nat ((depth - 4) div 6)
    \<and> (4 \<le> depth \<longrightarrow> int (length (modules_of (wrn_layer1 m))) = (depth - 4) div 6)
    \<and> (\<forall>width'.
          length (modules_of (wrn_layer1 (WideResNet16_8_init depth width' num_classes dp)))
            = length (modules_of (wrn_layer1 m))
        \<and> length (modules_of (wrn_layer2 (WideResNet16_8_init depth width' num_classes dp)))
            = length (modules_of (wrn_layer2 m))
        \<and> length (modules_of (wrn_layer3 (WideResNet16_8_init depth width' num_classes dp)))
            = length (modules_of (wrn_layer3 m)))"
  unfolding WideResNet16_8_init_eq Let_def
  apply (simp add: pos_imp_zdiv_nonneg_iff)
  apply (intro conjI impI allI ballI)
  apply auto
  done

theorem WideResNet16_8_width_scaling_witness:
  "(4::int) \<le> 16
   \<and> int (length (modules_of (wrn_layer1 (WideResNet16_8_init 16 8 10 (3 / 10))))) = (16 - 4) div 6
   \<and> length (modules_of (wrn_layer3 (WideResNet16_8_init 16 8 10 (3 / 10)))) = 2
   \<and> wrn_fc (WideResNet16_8_init 16 8 10 (3 / 10)) = Linear (64 * 8) 10"
  using WideResNet16_8_width_scaling [of 16 8 10 "3 / 10"]
  by (simp add: Let_def)

text \<open>
  The claim as stated fails below depth 4: at depth 3 the quotient \<open>(3 - 4) div 6\<close> is
  \<open>-1\<close>, \<^verbatim>\<open>range(-1)\<close> is empty and each group has no block.
\<close>

theorem WideResNet16_8_blocks_counterexample:
  "int (length (modules_of (wrn_layer1 (WideResNet16_8_init 3 8 10 (3 / 10))))) \<noteq> (3 - 4) div 6"
  by (simp add: WideResNet16_8_init_eq)

subsection \<open>\<^verbatim>\<open>sn_MLP\<close>\<close>

text \<open>
  C1. Constructing \<^verbatim>\<open>sn_MLP\<close> does not succeed: for every choice of the arguments the
  constructor raises. It raises when it builds its first linear layer if
  \<open>3 * M_coefficient * N_coefficient * n_coefficients\<close> is negative, and otherwise when
  it reads \<^verbatim>\<open>self.n_coefficients\<close>, which it never assigned.
\<close>

theorem sn_MLP_init_raises:
  "sn_MLP_init num_classes n_coefficients M_coefficient N_coefficient
     = Inl (if 3 * M_coefficient * N_coefficient * n_coefficients < 0
            then RuntimeError ''trying to create tensor with negative dimension''
            else AttributeError ''n_coefficients'')"
  by (simp add: sn_MLP_init_def getattr_def nn_Linear_def)

section \<open>Runs: composition and framing\<close>

lemma bnd_Inl: "f s = (Inl e, s1) \<Longrightarrow> bnd f g s = (Inl e, s1)"
  by (simp add: bnd_def)

lemma bnd_Inr: "f s = (Inr r, s1) \<Longrightarrow> bnd f g s = g r s1"
  by (simp add: bnd_def)

lemma run_cases:
  obtains (raises) e s1 where "rs = (Inl e, s1)" | (returns) r s1 where "rs = (Inr r, s1)"
  by (cases rs; cases "fst rs") auto

lemma keeps_refl: "keeps s x s"
  by (simp add: keeps_def)

lemma inscope_input: "x < nxt s \<Longrightarrow> inscope s x s x"
  by (simp add: inscope_def)

lemma inscope_later: "inscope s0 x s r \<Longrightarrow> nxt s \<le> nxt s1 \<Longrightarrow> inscope s0 x s1 r"
  by (auto simp: inscope_def)

lemma inscope_keeps_input: "keeps s0 x s \<Longrightarrow> x < nxt s0 \<Longrightarrow> inscope s0 x s x"
  by (auto simp: inscope_def keeps_def)

lemma framed_call:
  "keeps s0 x s \<Longrightarrow> inscope s0 x s r \<Longrightarrow> framed s0 x s (call T l r s)"
  by (cases "sem T l (val s r)") (auto simp: framed_def keeps_def inscope_def call_def Let_def)

lemma framed_iadd:
  "keeps s0 x s \<Longrightarrow> inscope s0 x s out \<Longrightarrow> framed s0 x s (iadd T out res s)"
  by (cases "add T (val s out) (val s res)")
     (auto simp: framed_def keeps_def inscope_def iadd_def Let_def)


lemma framed_reshape: "keeps s0 x s \<Longrightarrow> framed s0 x s (reshape T r s)"
  by (cases "flat_copy T (val s r)")
     (auto simp: framed_def keeps_def inscope_def reshape_def Let_def)

lemma framed_ret: "keeps s0 x s \<Longrightarrow> inscope s0 x s r \<Longrightarrow> framed s0 x s (ret r s)"
  by (simp add: framed_def ret_def)

lemma framed_raise: "keeps s0 x s \<Longrightarrow> framed s0 x s (raise e s)"
  by (simp add: framed_def raise_def)

lemma framed_bnd:
  assumes f: "framed s0 x s (f s)"
    and g: "\<And>r s1. keeps s0 x s1 \<Longrightarrow> nxt s \<le> nxt s1 \<Longrightarrow> inscope s0 x s1 r
              \<Longrightarrow> f s = (Inr r, s1) \<Longrightarrow> framed s0 x s1 (g r s1)"
  shows "framed s0 x s (bnd f g s)"
proof (cases "f s" rule: run_cases)
  case (raises e s1)
  then show ?thesis using f by (simp add: bnd_Inl)
next
  case (returns r s1)
  have "framed s0 x s1 (g r s1)"
    using f returns by (intro g) (simp_all add: framed_def)
  moreover have "nxt s \<le> nxt s1" using f returns by (simp add: framed_def)
  ultimately show ?thesis using returns by (simp add: bnd_Inr framed_def)
qed

lemma framed_local:
  assumes k: "keeps s0 x s" and r: "inscope s0 x s r" and f: "framed s r s rs"
  shows "framed s0 x s rs"
  using assms unfolding framed_def keeps_def inscope_def
  by (auto; metis leD le_trans not_le_imp_less)

lemma block_framed:
  assumes x: "x < nxt s"
    and res: "\<And>s1. keeps s x s1 \<Longrightarrow>
       framed s x s1 ((case ds of None \<Rightarrow> ret x | Some d \<Rightarrow> forward T d x) s1)"
  shows "framed s x s (forward T (BasicBlock c1 b1 rl c2 b2 ds st) x s)"
  unfolding forward.simps
  by ((rule framed_bnd framed_call framed_iadd res keeps_refl | assumption
       | rule inscope_input [OF x] | (erule inscope_later, assumption))+)

lemma shortcut_framed:
  assumes x: "x < nxt s" and k: "keeps s x s1" and o: "inscope s x s1 out"
  shows "framed s x s1
        ((if use then (case sc of None \<Rightarrow> raise (AttributeError ''shortcut'')
                        | Some c \<Rightarrow> call T c out) else ret x) s1)"
  using k o x
  by (cases sc) (simp_all add: framed_ret framed_raise framed_call inscope_keeps_input)

lemma wide_block_framed:
  assumes x: "x < nxt s"
  shows "framed s x s (forward T (BasicBlockWRN16_8 b1 c1 dr b2 c2 rl sc use) x s)"
  unfolding forward.simps
  by ((rule framed_bnd framed_call framed_iadd shortcut_framed [OF x] keeps_refl | assumption
       | rule inscope_input [OF x] | (erule inscope_later, assumption))+)

lemma forward_framed_aux:
  "(\<forall>T x s. x < nxt s \<longrightarrow> framed s x s (forward T m x (s::'a store)))"
  "(\<forall>T x s. x < nxt s \<longrightarrow> framed s x s (forward_seq T ms x (s::'a store)))"
proof (induction m and ms rule: topo_topo_seq.induct)
  case (1 l)
  show ?case by (simp add: framed_call keeps_refl inscope_input)
next
  case (2 ms)
  then show ?case by simp
next
  case (3 c1 b1 rl c2 b2 ds st)
  show ?case
  proof (intro allI impI)
    fix T x and s :: "'a store"
    assume x: "x < nxt s"
    have res: "framed s x s1 ((case ds of None \<Rightarrow> ret x | Some d \<Rightarrow> forward T d x) s1)"
      if k: "keeps s x s1" for s1
    proof (cases ds)
      case None
      then show ?thesis using k x by (simp add: framed_ret inscope_keeps_input)
    next
      case (Some d)
      have xs1: "x < nxt s1" using k x by (simp add: keeps_def)
      have "framed s1 x s1 (forward T d x s1)" using 3 Some xs1 by blast
      then show ?thesis
        using Some k x by (simp add: framed_local [OF k inscope_keeps_input])
    qed
    show "framed s x s (forward T (BasicBlock c1 b1 rl c2 b2 ds st) x s)"
      by (rule block_framed [OF x res])
  qed
next
  case (4 b1 c1 dr b2 c2 rl sc use)
  show ?case by (intro allI impI wide_block_framed)
next
  case 5
  show ?case by (simp add: framed_ret keeps_refl inscope_input)
next
  case (6 m ms)
  show ?case
  proof (intro allI impI)
    fix T x and s :: "'a store"
    assume x: "x < nxt s"
    have hd: "framed s x s (forward T m x s)" using 6 x by blast
    have tl: "framed s x s1 (forward_seq T ms r s1)"
      if k: "keeps s x s1" and r: "inscope s x s1 r" for r s1
    proof -
      have "r < nxt s1" using r by (simp add: inscope_def)
      then have "framed s1 r s1 (forward_seq T ms r s1)" using 6 by blast
      then show ?thesis by (rule framed_local [OF k r])
    qed
    show "framed s x s (forward_seq T (m # ms) x s)"
      unfolding forward_seq.simps by (rule framed_bnd) (rule hd, rule tl)
  qed
qed

lemma forward_framed: "x < nxt s \<Longrightarrow> framed s x s (forward T m x s)"
  using forward_framed_aux(1) by blast

lemma forward_seq_framed: "x < nxt s \<Longrightarrow> framed s x s (forward_seq T ms x s)"
  using forward_framed_aux(2) by blast

subsection \<open>The record of layer applications\<close>

lemma traced_call: "traced s (call T l r s) [Call l]"
  by (cases "sem T l (val s r)") (auto simp: traced_def call_def Let_def)

lemma traced_iadd: "traced s (iadd T out res s) [IAdd]"
  by (cases "add T (val s out) (val s res)") (auto simp: traced_def iadd_def Let_def)

lemma traced_view: "traced s (view T r s) [View]"
  by (cases "flat T (val s r)") (auto simp: traced_def view_def Let_def)

lemma traced_reshape: "traced s (reshape T r s) [Reshape]"
  by (cases "flat_copy T (val s r)") (auto simp: traced_def reshape_def Let_def)

lemma traced_ret: "traced s (ret r s) []"
  by (simp add: traced_def ret_def)

lemma traced_raise: "traced s (raise e s) evs"
  by (simp add: traced_def raise_def)

lemma traced_bnd:
  assumes f: "traced s (f s) e1"
    and g: "\<And>r s1. f s = (Inr r, s1) \<Longrightarrow> traced s1 (g r s1) e2"
  shows "traced s (bnd f g s) (e1 @ e2)"
proof (cases "f s" rule: run_cases)
  case (raises e s1)
  then show ?thesis using f by (auto simp: bnd_Inl traced_def)
next
  case (returns r s1)
  from f returns have s1: "applied s1 = applied s @ e1" by (simp add: traced_def)
  from g [OF returns] obtain p where
    p: "applied (snd (g r s1)) = applied s1 @ p" "prefix p e2" "returns (g r s1) \<longrightarrow> p = e2"
    by (auto simp: traced_def)
  have b: "bnd f g s = g r s1" using returns by (rule bnd_Inr)
  show ?thesis
    unfolding traced_def b
    by (rule exI [of _ "e1 @ p"]) (use p s1 in simp)
qed

lemma block_traced:
  assumes res: "\<And>s1. traced s1 ((case ds of None \<Rightarrow> ret x | Some d \<Rightarrow> forward T d x) s1)
                         (case ds of None \<Rightarrow> [] | Some d \<Rightarrow> topo d)"
  shows "traced s (forward T (BasicBlock c1 b1 rl c2 b2 ds st) x s)
                  (topo (BasicBlock c1 b1 rl c2 b2 ds st))"
proof -
  have "traced s (forward T (BasicBlock c1 b1 rl c2 b2 ds st) x s)
          ([Call c1] @ [Call b1] @ [Call rl] @ [Call c2] @ [Call b2]
           @ (case ds of None \<Rightarrow> [] | Some d \<Rightarrow> topo d) @ [IAdd] @ [Call rl])"
    unfolding forward.simps
    by (rule traced_bnd traced_call traced_iadd res)+
  then show ?thesis by simp
qed

lemma wide_block_traced:
  "traced s (forward T (BasicBlockWRN16_8 b1 c1 dr b2 c2 rl sc use) x s)
            (topo (BasicBlockWRN16_8 b1 c1 dr b2 c2 rl sc use))"
proof -
  have sc: "traced s1
        ((if use then (case sc of None \<Rightarrow> raise (AttributeError ''shortcut'')
                        | Some c \<Rightarrow> call T c out) else ret x) s1)
        (if use then (case sc of None \<Rightarrow> [] | Some c \<Rightarrow> [Call c]) else [])" for s1 out
    by (cases sc) (simp_all add: traced_ret traced_raise traced_call)
  have "traced s (forward T (BasicBlockWRN16_8 b1 c1 dr b2 c2 rl sc use) x s)
          ([Call b1] @ [Call rl]
           @ (if use then (case sc of None \<Rightarrow> [] | Some c \<Rightarrow> [Call c]) else [])
           @ [Call c1] @ [Call b2] @ [Call rl] @ [Call dr] @ [Call c2] @ [IAdd])"
    unfolding forward.simps
    by (rule traced_bnd traced_call traced_iadd sc)+
  then show ?thesis by simp
qed

lemma forward_traced_aux:
  "(\<forall>T x s. traced s (forward T m x (s::'a store)) (topo m))"
  "(\<forall>T x s. traced s (forward_seq T ms x (s::'a store)) (topo_seq ms))"
proof (induction m and ms rule: topo_topo_seq.induct)
  case (1 l)
  show ?case by (simp add: traced_call)
next
  case (2 ms)
  then show ?case by simp
next
  case (3 c1 b1 rl c2 b2 ds st)
  show ?case
  proof (intro allI)
    fix T x and s :: "'a store"
    have res: "traced s1 ((case ds of None \<Rightarrow> ret x | Some d \<Rightarrow> forward T d x) s1)
                         (case ds of None \<Rightarrow> [] | Some d \<Rightarrow> topo d)" for s1 :: "'a store"
      using 3 by (cases ds) (simp_all add: traced_ret)
    show "traced s (forward T (BasicBlock c1 b1 rl c2 b2 ds st) x s)
                   (topo (BasicBlock c1 b1 rl c2 b2 ds st))"
      by (rule block_traced [OF res])
  qed
next
  case (4 b1 c1 dr b2 c2 rl sc use)
  show ?case by (intro allI wide_block_traced)
next
  case 5
  show ?case by (simp add: traced_ret)
next
  case (6 m ms)
  show ?case
  proof (intro allI)
    fix T x and s :: "'a store"
    have "traced s (bnd (forward T m x) (forward_seq T ms) s) (topo m @ topo_seq ms)"
      using 6 by (intro traced_bnd) blast+
    then show "traced s (forward_seq T (m # ms) x s) (topo_seq (m # ms))" by simp
  qed
qed

lemma forward_traced: "traced s (forward T m x s) (topo m)"
  using forward_traced_aux(1) by blast

section \<open>The forward pass computes the function of the module\<close>

lemma outcome_bnd:
  assumes f: "outcome (f s) = d"
    and g: "\<And>r s1. f s = (Inr r, s1) \<Longrightarrow> outcome (g r s1) = k (val s1 r)"
  shows "outcome (bnd f g s) = ebind d k"
proof (cases "f s" rule: run_cases)
  case (raises e s1)
  then show ?thesis using f by (auto simp: bnd_Inl ebind_def)
next
  case (returns r s1)
  have b: "bnd f g s = g r s1" using returns by (rule bnd_Inr)
  show ?thesis using f g [OF returns] returns by (auto simp: b ebind_def)
qed

lemma outcome_call: "outcome (call T l r s) = sem T l (val s r)"
  by (cases "sem T l (val s r)") (auto simp: call_def Let_def)

lemma outcome_iadd: "outcome (iadd T out res s) = add T (val s out) (val s res)"
  by (cases "add T (val s out) (val s res)") (auto simp: iadd_def Let_def)

lemma outcome_view: "outcome (view T r s) = flat T (val s r)"
  by (cases "flat T (val s r)") (auto simp: view_def Let_def)

lemma outcome_reshape: "outcome (reshape T r s) = flat_copy T (val s r)"
  by (cases "flat_copy T (val s r)") (auto simp: reshape_def Let_def)

lemma call_fresh_holding:
  assumes "\<not> is_inplace l" "x < nxt s" "call T l x s = (Inr out, s1)"
  shows "holding s1 out x (val s x)"
  using assms
  by (cases "sem T l (val s x)") (auto simp: call_def Let_def holding_def)

lemma call_holding:
  assumes "holding s out q vq" "call T l out s = (Inr out', s1)"
  shows "holding s1 out' q vq"
  using assms
  by (cases "sem T l (val s out)") (auto simp: call_def Let_def holding_def split: if_splits)

lemma first_call:
  assumes "x < nxt s" "\<not> is_inplace l"
    and "\<And>out s1. holding s1 out x (val s x) \<Longrightarrow> outcome (g out s1) = k (val s1 out)"
  shows "outcome (bnd (call T l x) g s) = ebind (sem T l (val s x)) k"
  by (rule outcome_bnd [OF outcome_call]) (rule assms(3), rule call_fresh_holding [OF assms(2,1)])

lemma next_call:
  assumes "holding s out q vq"
    and "\<And>out' s1. holding s1 out' q vq \<Longrightarrow> outcome (g out' s1) = k (val s1 out')"
  shows "outcome (bnd (call T l out) g s) = ebind (sem T l (val s out)) k"
  by (rule outcome_bnd [OF outcome_call]) (rule assms(2), rule call_holding [OF assms(1)])

lemma last_iadd: "holding s out q vq \<Longrightarrow> outcome (iadd T out q s) = add T (val s out) vq"
  by (simp add: outcome_iadd holding_def)

lemma iadd_then_call:
  "outcome (bnd (iadd T out r) (call T l) s) = ebind (add T (val s out) (val s r)) (sem T l)"
  by (rule outcome_bnd [OF outcome_iadd])
     (auto simp: outcome_call iadd_def Let_def split: sum.splits)

lemma residual_step:
  assumes h: "holding s out x v"
    and d: "\<And>d s'. ds = Some d \<Longrightarrow> x < nxt s' \<Longrightarrow>
              outcome (forward T d x s') = denote T d (val s' x)"
    and g: "\<And>r s1. out < nxt s1 \<Longrightarrow> val s1 out = val s out \<Longrightarrow>
              outcome (g r s1) = k (val s1 r)"
  shows "outcome (bnd (case ds of None \<Rightarrow> ret x | Some d \<Rightarrow> forward T d x) g s)
         = ebind (case ds of None \<Rightarrow> Inr v | Some d \<Rightarrow> denote T d v) k"
proof (cases ds)
  case None
  have "outcome (g x s) = k (val s x)" using h by (intro g) (simp_all add: holding_def)
  then show ?thesis using None h by (simp add: bnd_def ret_def ebind_def holding_def)
next
  case (Some d)
  have x: "x < nxt s" and v: "val s x = v" and o: "out < nxt s" "out \<noteq> x"
    using h by (auto simp: holding_def)
  have fr: "framed s x s (forward T d x s)" using x by (rule forward_framed)
  have "outcome (bnd (forward T d x) g s) = ebind (denote T d (val s x)) k"
  proof (rule outcome_bnd)
    show "outcome (forward T d x s) = denote T d (val s x)" by (rule d [OF Some x])
  next
    fix r s1 assume run: "forward T d x s = (Inr r, s1)"
    have k: "keeps s x s1" using fr run by (simp add: framed_def)
    show "outcome (g r s1) = k (val s1 r)"
      using k o by (intro g) (auto simp: keeps_def)
  qed
  then show ?thesis using Some v by simp
qed

lemma block_outcome:
  assumes x: "x < nxt s" and c1: "\<not> is_inplace c1"
    and d: "\<And>d s'. ds = Some d \<Longrightarrow> x < nxt s' \<Longrightarrow>
              outcome (forward T d x s') = denote T d (val s' x)"
  shows "outcome (forward T (BasicBlock c1 b1 rl c2 b2 ds st) x s)
         = denote T (BasicBlock c1 b1 rl c2 b2 ds st) (val s x)"
  unfolding forward.simps denote.simps
proof (rule first_call [OF x c1], (rule next_call, assumption)+, rule residual_step, assumption)
  fix d and s' :: "'a store" assume "ds = Some d" "x < nxt s'"
  then show "outcome (forward T d x s') = denote T d (val s' x)" by (rule d)
next
  fix out r and s1 s2 :: "'a store"
  assume e: "val s2 out = val s1 out"
  show "outcome (bnd (iadd T out r) (call T rl) s2)
        = ebind (add T (val s1 out) (val s2 r)) (sem T rl)"
    by (simp add: iadd_then_call e)
qed

lemma shortcut_step:
  assumes h: "holding s a x v"
    and c: "\<And>c. sc = Some c \<Longrightarrow> \<not> is_inplace c"
    and g: "\<And>q s1. holding s1 a q (val s1 q) \<Longrightarrow> val s1 a = val s a \<Longrightarrow>
              outcome (g q s1) = k (val s1 q)"
  shows "outcome (bnd (if use then (case sc of None \<Rightarrow> raise (AttributeError ''shortcut'')
                                      | Some c \<Rightarrow> call T c a)
                       else ret x) g s)
         = ebind (if use then (case sc of None \<Rightarrow> Inl (AttributeError ''shortcut'')
                                | Some c \<Rightarrow> sem T c (val s a))
                  else Inr v) k"
proof (cases "use")
  case False
  have "outcome (g x s) = k (val s x)" using h by (intro g) (simp_all add: holding_def)
  then show ?thesis using False h by (simp add: bnd_def ret_def ebind_def holding_def)
next
  case True
  show ?thesis
  proof (cases sc)
    case None
    then show ?thesis using True by (simp add: bnd_def raise_def ebind_def)
  next
    case (Some c)
    have a: "a < nxt s" using h by (simp add: holding_def)
    have "outcome (bnd (call T c a) g s) = ebind (sem T c (val s a)) k"
    proof (rule outcome_bnd [OF outcome_call])
      fix q s1 assume run: "call T c a s = (Inr q, s1)"
      have "holding s1 q a (val s a)"
        using c [OF Some] a run by (rule call_fresh_holding)
      then have "holding s1 a q (val s1 q)" "val s1 a = val s a"
        by (auto simp: holding_def)
      then show "outcome (g q s1) = k (val s1 q)" by (rule g)
    qed
    then show ?thesis using True Some by simp
  qed
qed

lemma wide_tail:
  assumes "holding s a q vq"
  shows "outcome (bnd (call T c1 a) (\<lambda>out.
                  bnd (call T b2 out) (\<lambda>out.
                  bnd (call T rl out) (\<lambda>out.
                  bnd (call T dr out) (\<lambda>out.
                  bnd (call T c2 out) (\<lambda>out.
                  iadd T out q))))) s)
         = ebind (sem T c1 (val s a)) (\<lambda>b.
           ebind (sem T b2 b) (\<lambda>b.
           ebind (sem T rl b) (\<lambda>b.
           ebind (sem T dr b) (\<lambda>b.
           ebind (sem T c2 b) (\<lambda>b.
           add T b vq)))))"
  using assms by - ((rule next_call, assumption)+, rule last_iadd)

lemma wide_block_outcome:
  assumes x: "x < nxt s" and b1: "\<not> is_inplace b1"
    and c: "\<And>c. sc = Some c \<Longrightarrow> \<not> is_inplace c"
  shows "outcome (forward T (BasicBlockWRN16_8 b1 c1 dr b2 c2 rl sc use) x s)
         = denote T (BasicBlockWRN16_8 b1 c1 dr b2 c2 rl sc use) (val s x)"
  unfolding forward.simps denote.simps
proof (rule first_call [OF x b1], rule next_call, assumption, rule shortcut_step, assumption)
  fix c assume "sc = Some c" then show "\<not> is_inplace c" by (rule c)
next
  fix a q and s2 s3 :: "'a store"
  assume h: "holding s3 a q (val s3 q)" and e: "val s3 a = val s2 a"
  show "outcome (bnd (call T c1 a) (\<lambda>out.
                  bnd (call T b2 out) (\<lambda>out.
                  bnd (call T rl out) (\<lambda>out.
                  bnd (call T dr out) (\<lambda>out.
                  bnd (call T c2 out) (\<lambda>out.
                  iadd T out q))))) s3)
         = ebind (sem T c1 (val s2 a)) (\<lambda>b.
           ebind (sem T b2 b) (\<lambda>b.
           ebind (sem T rl b) (\<lambda>b.
           ebind (sem T dr b) (\<lambda>b.
           ebind (sem T c2 b) (\<lambda>b.
           add T b (val s3 q))))))"
    using wide_tail [OF h] e by simp
qed

lemma forward_outcome_aux:
  "fresh_first m \<longrightarrow>
     (\<forall>T x s. x < nxt s \<longrightarrow> outcome (forward T m x (s::'a store)) = denote T m (val s x))"
  "fresh_first_seq ms \<longrightarrow>
     (\<forall>T x s. x < nxt s \<longrightarrow>
        outcome (forward_seq T ms x (s::'a store)) = denote_seq T ms (val s x))"
proof (induction m and ms rule: topo_topo_seq.induct)
  case (1 l)
  show ?case by (simp add: outcome_call)
next
  case (2 ms)
  then show ?case by simp
next
  case (3 c1 b1 rl c2 b2 ds st)
  show ?case
  proof (intro allI impI)
    fix T x and s :: "'a store"
    assume f: "fresh_first (BasicBlock c1 b1 rl c2 b2 ds st)" and x: "x < nxt s"
    have c1: "\<not> is_inplace c1" using f by simp
    have d: "outcome (forward T d x s') = denote T d (val s' x)"
      if "ds = Some d" "x < nxt s'" for d and s' :: "'a store"
      using 3 f that by simp
    show "outcome (forward T (BasicBlock c1 b1 rl c2 b2 ds st) x s)
          = denote T (BasicBlock c1 b1 rl c2 b2 ds st) (val s x)"
      using x c1 d by (rule block_outcome)
  qed
next
  case (4 b1 c1 dr b2 c2 rl sc use)
  show ?case
  proof (intro allI impI)
    fix T x and s :: "'a store"
    assume f: "fresh_first (BasicBlockWRN16_8 b1 c1 dr b2 c2 rl sc use)" and x: "x < nxt s"
    show "outcome (forward T (BasicBlockWRN16_8 b1 c1 dr b2 c2 rl sc use) x s)
          = denote T (BasicBlockWRN16_8 b1 c1 dr b2 c2 rl sc use) (val s x)"
      using x f by (intro wide_block_outcome) simp_all
  qed
next
  case 5
  show ?case by (simp add: ret_def)
next
  case (6 m ms)
  show ?case
  proof (intro allI impI)
    fix T x and s :: "'a store"
    assume f: "fresh_first_seq (m # ms)" and x: "x < nxt s"
    have "outcome (bnd (forward T m x) (forward_seq T ms) s)
          = ebind (denote T m (val s x)) (denote_seq T ms)"
    proof (rule outcome_bnd)
      show "outcome (forward T m x s) = denote T m (val s x)" using 6 f x by simp
    next
      fix r s1 assume run: "forward T m x s = (Inr r, s1)"
      have "framed s x s (forward T m x s)" using x by (rule forward_framed)
      then have "r < nxt s1" using run by (simp add: framed_def inscope_def)
      then show "outcome (forward_seq T ms r s1) = denote_seq T ms (val s1 r)"
        using 6 f by simp
    qed
    then show "outcome (forward_seq T (m # ms) x s) = denote_seq T (m # ms) (val s x)"
      by simp
  qed
qed

lemma forward_outcome:
  "fresh_first m \<Longrightarrow> x < nxt s \<Longrightarrow> outcome (forward T m x s) = denote T m (val s x)"
  using forward_outcome_aux(1) by blast

subsection \<open>Chains of applications\<close>

lemma chain_call:
  assumes "r < nxt s"
    and "\<And>r' s1. r' < nxt s1 \<Longrightarrow> outcome (g r' s1) = k (val s1 r')"
  shows "outcome (bnd (call T l r) g s) = ebind (sem T l (val s r)) k"
proof (rule outcome_bnd [OF outcome_call])
  fix r' s1 assume run: "call T l r s = (Inr r', s1)"
  have "framed s r s (call T l r s)"
    using assms(1) by (intro framed_call keeps_refl inscope_input)
  then have "r' < nxt s1" using run by (simp add: framed_def inscope_def)
  then show "outcome (g r' s1) = k (val s1 r')" by (rule assms(2))
qed


lemma chain_reshape:
  assumes "\<And>r' s1. r' < nxt s1 \<Longrightarrow> outcome (g r' s1) = k (val s1 r')"
  shows "outcome (bnd (reshape T r) g s) = ebind (flat_copy T (val s r)) k"
proof (rule outcome_bnd [OF outcome_reshape])
  fix r' s1 assume run: "reshape T r s = (Inr r', s1)"
  have "framed s r s (reshape T r s)" by (intro framed_reshape keeps_refl)
  then have "r' < nxt s1" using run by (simp add: framed_def inscope_def)
  then show "outcome (g r' s1) = k (val s1 r')" by (rule assms)
qed


section \<open>The residual blocks\<close>

text \<open>
  C2. For every input tensor and every behaviour of the layers, the forward pass of a
  basic block built by the constructor returns
  \<open>relu (bn2 (conv2 (relu (bn1 (conv1 x)))) + r)\<close>, where \<open>r\<close> is what the downsample
  module returns on \<open>x\<close> when one was supplied and the value of \<open>x\<close> itself
  otherwise; an error raised on the way is the error of the pass. The in-place
  activations and the in-place addition do not disturb the saved input. The same holds
  of a block with any layers in its five places, as long as the first returns a new
  tensor: each layer is applied in its own place.
\<close>

theorem BasicBlock_forward_residual:
  assumes "x < nxt s" and "case ds of None \<Rightarrow> True | Some d \<Rightarrow> fresh_first d"
  shows "outcome (forward T (BasicBlock_init inplanes planes st ds) x s) =
     ebind (sem T (conv3x3 inplanes planes st) (val s x)) (\<lambda>a.
     ebind (sem T (BatchNorm2d planes True) a) (\<lambda>a.
     ebind (sem T (ReLU True) a) (\<lambda>a.
     ebind (sem T (conv3x3 planes planes 1) a) (\<lambda>a.
     ebind (sem T (BatchNorm2d planes True) a) (\<lambda>a.
     ebind (case ds of None \<Rightarrow> Inr (val s x) | Some d \<Rightarrow> outcome (forward T d x s)) (\<lambda>r.
     ebind (add T a r) (\<lambda>a.
     sem T (ReLU True) a)))))))
   \<and> (\<not> is_inplace conva \<longrightarrow>
       outcome (forward T (BasicBlock conva bna rl convb bnb ds sd) x s) =
         ebind (sem T conva (val s x)) (\<lambda>a.
         ebind (sem T bna a) (\<lambda>a.
         ebind (sem T rl a) (\<lambda>a.
         ebind (sem T convb a) (\<lambda>a.
         ebind (sem T bnb a) (\<lambda>a.
         ebind (case ds of None \<Rightarrow> Inr (val s x) | Some d \<Rightarrow> outcome (forward T d x s)) (\<lambda>r.
         ebind (add T a r) (\<lambda>a.
         sem T rl a))))))))"
proof -
  have r: "(case ds of None \<Rightarrow> Inr (val s x) | Some d \<Rightarrow> outcome (forward T d x s))
         = (case ds of None \<Rightarrow> Inr (val s x) | Some d \<Rightarrow> denote T d (val s x))"
    using assms by (cases ds) (simp_all add: forward_outcome)
  have g: "outcome (forward T (BasicBlock c b rl' c' b' ds z) x s)
           = denote T (BasicBlock c b rl' c' b' ds z) (val s x)"
    if "\<not> is_inplace c" for c b rl' c' b' z
    using that assms by (intro forward_outcome; cases ds) simp_all
  have c: "outcome (forward T (BasicBlock_init inplanes planes st ds) x s)
           = denote T (BasicBlock_init inplanes planes st ds) (val s x)"
    unfolding BasicBlock_init_def by (rule g) (simp add: conv3x3_def)
  show ?thesis
    unfolding r c by (simp add: BasicBlock_init_def g del: forward.simps)
qed

theorem BasicBlock_forward_residual_witness:
  "(0::nat) < nxt (input ([2, 16, 8, 8::nat], Contiguous))
   \<and> fresh_first (Sequential [Layer (Conv2d 16 32 1 1 0 False), Layer (BatchNorm2d 32 True)])
   \<and> outcome (forward (shapes Inr False)
        (BasicBlock_init 16 32 1
           (Some (Sequential [Layer (Conv2d 16 32 1 1 0 False), Layer (BatchNorm2d 32 True)])))
        0 (input ([2, 16, 8, 8], Contiguous))) = Inr ([2, 32, 8, 8], Contiguous)
   \<and> \<not> is_inplace (Conv2d 16 32 3 1 1 False)
   \<and> outcome (forward
        \<lparr>sem = (\<lambda>l v. Inr (v @ [l])), add = (\<lambda>a r. Inr (a @ r)), flat = Inr, flat_copy = Inr\<rparr>
        (BasicBlock (Conv2d 16 32 3 1 1 False) (BatchNorm2d 32 True) (ReLU True)
           (Conv2d 32 32 3 1 1 False) (BatchNorm2d 32 False) None 1)
        0 (input [Dropout 0]))
      = Inr [Dropout 0, Conv2d 16 32 3 1 1 False, BatchNorm2d 32 True, ReLU True,
             Conv2d 32 32 3 1 1 False, BatchNorm2d 32 False, Dropout 0, ReLU True]"
proof -
  have a: "outcome (forward (shapes Inr False)
        (BasicBlock_init 16 32 1
           (Some (Sequential [Layer (Conv2d 16 32 1 1 0 False), Layer (BatchNorm2d 32 True)])))
        0 (input ([2, 16, 8, 8], Contiguous))) = Inr ([2, 32, 8, 8], Contiguous)"
    using BasicBlock_forward_residual [of 0 "input ([2, 16, 8, 8], Contiguous)"
      "Some (Sequential [Layer (Conv2d 16 32 1 1 0 False), Layer (BatchNorm2d 32 True)])"
      "shapes Inr False" 16 32 1]
    by (simp add: input_def shapes_def call_def bnd_def ret_def Let_def ebind_def conv3x3_def
          conv_out_def conv_dims_def)
  have b: "outcome (forward
        \<lparr>sem = (\<lambda>l v. Inr (v @ [l])), add = (\<lambda>a r. Inr (a @ r)), flat = Inr, flat_copy = Inr\<rparr>
        (BasicBlock (Conv2d 16 32 3 1 1 False) (BatchNorm2d 32 True) (ReLU True)
           (Conv2d 32 32 3 1 1 False) (BatchNorm2d 32 False) None 1)
        0 (input [Dropout 0]))
      = Inr [Dropout 0, Conv2d 16 32 3 1 1 False, BatchNorm2d 32 True, ReLU True,
             Conv2d 32 32 3 1 1 False, BatchNorm2d 32 False, Dropout 0, ReLU True]"
    using BasicBlock_forward_residual [where x = 0 and s = "input [Dropout 0]" and ds = None
      and T = "\<lparr>sem = (\<lambda>l v. Inr (v @ [l])), add = (\<lambda>a r. Inr (a @ r)),
                 flat = Inr, flat_copy = Inr\<rparr>"
      and conva = "Conv2d 16 32 3 1 1 False" and bna = "BatchNorm2d 32 True" and rl = "ReLU True"
      and convb = "Conv2d 32 32 3 1 1 False" and bnb = "BatchNorm2d 32 False" and sd = 1]
    by (simp add: input_def ebind_def)
  show ?thesis using a b by (simp add: input_def)
qed

text \<open>
  C8. A wide block built by the constructor uses the 1x1 shortcut exactly when
  \<open>stride \<noteq> 1\<close> or \<open>inplanes \<noteq> planes\<close>. Its forward pass, on every input and for
  every behaviour of the layers, adds to the residual branch
  \<open>conv2 (dropout (relu (bn2 (conv1 a))))\<close>, where \<open>a = relu (bn1 x)\<close>, the 1x1
  convolution of the activated tensor \<open>a\<close> in the first case and the value of the input
  \<open>x\<close> itself otherwise. The addition is the last operation of the block: nothing is
  applied to the sum. The same holds of a block with any layers in its places, as long
  as its first layer and its shortcut layer return new tensors.
\<close>

theorem BasicBlockWRN16_8_shortcut:
  "use_conv1x1 (BasicBlockWRN16_8_init inplanes planes dp st) = (st \<noteq> 1 \<or> inplanes \<noteq> planes)
   \<and> (x < nxt s \<longrightarrow>
       outcome (forward T (BasicBlockWRN16_8_init inplanes planes dp st) x s) =
         ebind (sem T (BatchNorm2d inplanes True) (val s x)) (\<lambda>a.
         ebind (sem T (ReLU True) a) (\<lambda>a.
         ebind (if st \<noteq> 1 \<or> inplanes \<noteq> planes
                then sem T (conv1x1 inplanes planes st) a
                else Inr (val s x)) (\<lambda>r.
         ebind (sem T (conv3x3 inplanes planes st) a) (\<lambda>b.
         ebind (sem T (BatchNorm2d planes True) b) (\<lambda>b.
         ebind (sem T (ReLU True) b) (\<lambda>b.
         ebind (sem T (Dropout dp) b) (\<lambda>b.
         ebind (sem T (conv3x3 planes planes 1) b) (\<lambda>b.
         add T b r)))))))))
   \<and> traced s (forward T (BasicBlockWRN16_8_init inplanes planes dp st) x s)
        (topo (BasicBlockWRN16_8_init inplanes planes dp st))
   \<and> last (topo (BasicBlockWRN16_8_init inplanes planes dp st)) = IAdd
   \<and> (x < nxt s \<and> \<not> is_inplace bna \<and> \<not> is_inplace c \<longrightarrow>
       outcome (forward T (BasicBlockWRN16_8 bna conva drp bnb convb rl (Some c) use) x s) =
         ebind (sem T bna (val s x)) (\<lambda>a.
         ebind (sem T rl a) (\<lambda>a.
         ebind (if use then sem T c a else Inr (val s x)) (\<lambda>r.
         ebind (sem T conva a) (\<lambda>b.
         ebind (sem T bnb b) (\<lambda>b.
         ebind (sem T rl b) (\<lambda>b.
         ebind (sem T drp b) (\<lambda>b.
         ebind (sem T convb b) (\<lambda>b.
         add T b r)))))))))
   \<and> last (topo (BasicBlockWRN16_8 bna conva drp bnb convb rl (Some c) use)) = IAdd"
proof -
  have f: "fresh_first (BasicBlockWRN16_8_init inplanes planes dp st)"
    by (simp add: BasicBlockWRN16_8_init_def conv1x1_def)
  have o: "outcome (forward T (BasicBlockWRN16_8_init inplanes planes dp st) x s)
        = denote T (BasicBlockWRN16_8_init inplanes planes dp st) (val s x)" if "x < nxt s"
    using f that by (rule forward_outcome)
  have g: "outcome (forward T (BasicBlockWRN16_8 bna conva drp bnb convb rl (Some c) use) x s)
        = denote T (BasicBlockWRN16_8 bna conva drp bnb convb rl (Some c) use) (val s x)"
    if "x < nxt s" "\<not> is_inplace bna" "\<not> is_inplace c"
    using that by (intro forward_outcome) simp_all
  have i: "denote T (BasicBlockWRN16_8_init inplanes planes dp st) (val s x) =
         ebind (sem T (BatchNorm2d inplanes True) (val s x)) (\<lambda>a.
         ebind (sem T (ReLU True) a) (\<lambda>a.
         ebind (if st \<noteq> 1 \<or> inplanes \<noteq> planes
                then sem T (conv1x1 inplanes planes st) a
                else Inr (val s x)) (\<lambda>r.
         ebind (sem T (conv3x3 inplanes planes st) a) (\<lambda>b.
         ebind (sem T (BatchNorm2d planes True) b) (\<lambda>b.
         ebind (sem T (ReLU True) b) (\<lambda>b.
         ebind (sem T (Dropout dp) b) (\<lambda>b.
         ebind (sem T (conv3x3 planes planes 1) b) (\<lambda>b.
         add T b r))))))))"
    by (simp add: BasicBlockWRN16_8_init_def)
  have u: "use_conv1x1 (BasicBlockWRN16_8_init inplanes planes dp st)
           = (st \<noteq> 1 \<or> inplanes \<noteq> planes)"
    "last (topo (BasicBlockWRN16_8_init inplanes planes dp st)) = IAdd"
    "last (topo (BasicBlockWRN16_8 bna conva drp bnb convb rl (Some c) use)) = IAdd"
    by (simp_all add: BasicBlockWRN16_8_init_def)
  show ?thesis
    unfolding u
    by (intro conjI impI) (simp_all add: o i g forward_traced del: forward.simps cong: if_cong)
qed

theorem BasicBlockWRN16_8_shortcut_witness:
  "(2::int) \<noteq> 1
   \<and> use_conv1x1 (BasicBlockWRN16_8_init 16 32 (3 / 10) 2)
   \<and> (0::nat) < nxt (input ([2, 16, 8, 8::nat], Contiguous))
   \<and> outcome (forward (shapes Inr True) (BasicBlockWRN16_8_init 16 32 (3 / 10) 2) 0
        (input ([2, 16, 8, 8], Contiguous))) = Inr ([2, 32, 4, 4], Contiguous)
   \<and> new_events (input ([2, 16, 8, 8], Contiguous))
        (forward (shapes Inr True) (BasicBlockWRN16_8_init 16 32 (3 / 10) 2) 0
          (input ([2, 16, 8, 8], Contiguous)))
      = [Call (BatchNorm2d 16 True), Call (ReLU True), Call (Conv2d 16 32 1 2 0 False),
         Call (Conv2d 16 32 3 2 1 False), Call (BatchNorm2d 32 True), Call (ReLU True),
         Call (Dropout (3 / 10)), Call (Conv2d 32 32 3 1 1 False), IAdd]
   \<and> \<not> is_inplace (BatchNorm2d 16 True) \<and> \<not> is_inplace (Conv2d 16 32 1 2 0 False)
   \<and> outcome (forward
        \<lparr>sem = (\<lambda>l v. Inr (v @ [l])), add = (\<lambda>a r. Inr (a @ r)), flat = Inr, flat_copy = Inr\<rparr>
        (BasicBlockWRN16_8 (BatchNorm2d 16 True) (Conv2d 16 32 3 2 1 False) (Dropout (3 / 10))
           (BatchNorm2d 32 True) (Conv2d 32 32 3 1 1 False) (ReLU True)
           (Some (Conv2d 16 32 1 2 0 False)) True)
        0 (input []))
      = Inr [BatchNorm2d 16 True, ReLU True, Conv2d 16 32 3 2 1 False, BatchNorm2d 32 True,
             ReLU True, Dropout (3 / 10), Conv2d 32 32 3 1 1 False,
             BatchNorm2d 16 True, ReLU True, Conv2d 16 32 1 2 0 False]"
proof -
  have a: "use_conv1x1 (BasicBlockWRN16_8_init 16 32 (3 / 10) 2)
   \<and> outcome (forward (shapes Inr True) (BasicBlockWRN16_8_init 16 32 (3 / 10) 2) 0
        (input ([2, 16, 8, 8], Contiguous))) = Inr ([2, 32, 4, 4], Contiguous)
   \<and> new_events (input ([2, 16, 8, 8], Contiguous))
        (forward (shapes Inr True) (BasicBlockWRN16_8_init 16 32 (3 / 10) 2) 0
          (input ([2, 16, 8, 8], Contiguous)))
      = [Call (BatchNorm2d 16 True), Call (ReLU True), Call (Conv2d 16 32 1 2 0 False),
         Call (Conv2d 16 32 3 2 1 False), Call (BatchNorm2d 32 True), Call (ReLU True),
         Call (Dropout (3 / 10)), Call (Conv2d 32 32 3 1 1 False), IAdd]"
    using BasicBlockWRN16_8_shortcut [where inplanes = 16 and planes = 32 and dp = "3 / 10"
      and st = 2 and x = 0 and s = "input ([2, 16, 8, 8], Contiguous)" and T = "shapes Inr True"
      and bna = "BatchNorm2d 16 True" and c = "Conv2d 16 32 1 2 0 False" and conva = "Conv2d 16 32 3 2 1 False"
      and drp = "Dropout (3 / 10)" and bnb = "BatchNorm2d 32 True" and convb = "Conv2d 32 32 3 1 1 False"
      and rl = "ReLU True" and use = True]
    by (simp add: input_def shapes_def call_def iadd_def bnd_def ret_def Let_def ebind_def
          conv3x3_def conv1x1_def conv_out_def conv_dims_def BasicBlockWRN16_8_init_def new_events_def)
  have b: "outcome (forward
        \<lparr>sem = (\<lambda>l v. Inr (v @ [l])), add = (\<lambda>a r. Inr (a @ r)), flat = Inr, flat_copy = Inr\<rparr>
        (BasicBlockWRN16_8 (BatchNorm2d 16 True) (Conv2d 16 32 3 2 1 False) (Dropout (3 / 10))
           (BatchNorm2d 32 True) (Conv2d 32 32 3 1 1 False) (ReLU True)
           (Some (Conv2d 16 32 1 2 0 False)) True)
        0 (input []))
      = Inr [BatchNorm2d 16 True, ReLU True, Conv2d 16 32 3 2 1 False, BatchNorm2d 32 True,
             ReLU True, Dropout (3 / 10), Conv2d 32 32 3 1 1 False,
             BatchNorm2d 16 True, ReLU True, Conv2d 16 32 1 2 0 False]"
    using BasicBlockWRN16_8_shortcut [where x = 0 and s = "input []"
      and T = "\<lparr>sem = (\<lambda>l v. Inr (v @ [l])), add = (\<lambda>a r. Inr (a @ r)),
                 flat = Inr, flat_copy = Inr\<rparr>"
      and bna = "BatchNorm2d 16 True" and c = "Conv2d 16 32 1 2 0 False" and conva = "Conv2d 16 32 3 2 1 False"
      and drp = "Dropout (3 / 10)" and bnb = "BatchNorm2d 32 True" and convb = "Conv2d 32 32 3 1 1 False"
      and rl = "ReLU True" and use = True]
    by (simp add: input_def ebind_def)
  show ?thesis using a b by (simp add: input_def)
qed

section \<open>The models\<close>

subsection \<open>Counting parameters\<close>

lemma count_loop_sum: "count_loop ts count = count + (\<Sum>t\<leftarrow>ts. int (numel t))"
  by (induction ts arbitrary: count) simp_all

lemma numel_split:
  "(\<Sum>t\<leftarrow>ps. int (numel t)) = learnable_numel ps + frozen_numel ps"
  by (induction ps) (simp_all add: learnable_numel_def frozen_numel_def)

text \<open>
  C9. \<^verbatim>\<open>countLearnableParams\<close> returns the sum of \<^verbatim>\<open>numel\<close> over every tensor that
  \<^verbatim>\<open>self.parameters()\<close> yields. The \<^verbatim>\<open>requires_grad\<close> flags play no part: setting them
  in any way leaves the result unchanged, so the result is the total number of parameter
  elements: the elements of the trained parameters plus those of the frozen ones.
\<close>

theorem countLearnableParams_total:
  "countLearnableParams ps = (\<Sum>t\<leftarrow>ps. int (numel t))
   \<and> countLearnableParams (map (\<lambda>t. t\<lparr>requires_grad := g t\<rparr>) ps) = countLearnableParams ps
   \<and> countLearnableParams ps = learnable_numel ps + frozen_numel ps"
  by (simp add: countLearnableParams_def count_loop_sum comp_def numel_split)

theorem countLearnableParams_total_witness:
  "countLearnableParams
     [\<lparr>numel = 432, requires_grad = True\<rparr>, \<lparr>numel = 16, requires_grad = False\<rparr>] = 448
   \<and> countLearnableParams
       (map (\<lambda>t. t\<lparr>requires_grad := False\<rparr>)
          [\<lparr>numel = 432, requires_grad = True\<rparr>, \<lparr>numel = 16, requires_grad = False\<rparr>]) = 448
   \<and> learnable_numel
       [\<lparr>numel = 432, requires_grad = True\<rparr>, \<lparr>numel = 16, requires_grad = False\<rparr>] = 432"
  using countLearnableParams_total
    [of "[\<lparr>numel = 432, requires_grad = True\<rparr>, \<lparr>numel = 16, requires_grad = False\<rparr>]"
        "\<lambda>t. False"]
  by (simp add: learnable_numel_def)

subsection \<open>Fixed topology\<close>

lemma traced_new_events:
  "traced s rs evs \<Longrightarrow> prefix (new_events s rs) evs \<and> (returns rs \<longrightarrow> new_events s rs = evs)"
  by (auto simp: traced_def new_events_def)

lemma traced_same_events:
  assumes "traced s rs evs" "traced s' rs' evs" "returns rs" "returns rs'"
  shows "new_events s rs = new_events s' rs'"
  using assms by (auto simp: traced_def new_events_def)

lemma sn_MLP_traced: "traced s (sn_MLP_forward T self x s) (sn_MLP_topo self)"
proof -
  have "traced s (sn_MLP_forward T self x s) ([View] @ topo (mlp_layers self))"
    unfolding sn_MLP_forward_def by (rule traced_bnd traced_view forward_traced)+
  then show ?thesis by (simp add: sn_MLP_topo_def)
qed

lemma sn_LinearLayer_traced:
  "traced s (sn_LinearLayer_forward T self x s) (sn_LinearLayer_topo self)"
proof -
  have "traced s (sn_LinearLayer_forward T self x s)
          ([Call (lin_bn0 self)] @ [Reshape] @ [Call (lin_fc1 self)])"
    unfolding sn_LinearLayer_forward_def by (rule traced_bnd traced_reshape traced_call)+
  then show ?thesis by (simp add: sn_LinearLayer_topo_def)
qed

lemma sn_CNN_traced: "traced s (sn_CNN_forward T self x s) (sn_CNN_topo self)"
proof -
  have l1: "traced s1
      ((if cnn_standard self
        then (case cnn_layer1 self of None \<Rightarrow> raise (AttributeError ''layer1'')
              | Some l1 \<Rightarrow> forward T l1 r)
        else ret r) s1)
      (if cnn_standard self then (case cnn_layer1 self of None \<Rightarrow> [] | Some l1 \<Rightarrow> topo l1)
       else [])" for r and s1 :: "'a store"
    by (cases "cnn_layer1 self") (simp_all add: traced_ret traced_raise forward_traced)
  have "traced s (sn_CNN_forward T self x s)
          ([Call (cnn_bn0 self)] @ topo (cnn_init_conv self)
           @ (if cnn_standard self
              then (case cnn_layer1 self of None \<Rightarrow> [] | Some l1 \<Rightarrow> topo l1) else [])
           @ topo (cnn_layer2 self) @ topo (cnn_layer3 self)
           @ [Call (cnn_avgpool self)] @ [View] @ [Call (cnn_fc self)])"
    unfolding sn_CNN_forward_def
    by (rule traced_bnd traced_view traced_call forward_traced l1)+
  then show ?thesis by (simp add: sn_CNN_topo_def)
qed

lemma sn_Resnet50_traced: "traced s (sn_Resnet50_forward T self x s) (sn_Resnet50_topo self)"
proof -
  have "traced s (sn_Resnet50_forward T self x s)
          ([Call (rn_features (r50_model_ft self))] @ [Call (rn_fc (r50_model_ft self))])"
    unfolding sn_Resnet50_forward_def resnet_forward_def by (rule traced_bnd traced_call)+
  then show ?thesis by (simp add: sn_Resnet50_topo_def)
qed

lemma WideResNet16_8_traced:
  "traced s (WideResNet16_8_forward T self x s) (WideResNet16_8_topo self)"
proof -
  have "traced s (WideResNet16_8_forward T self x s)
          ([Call (wrn_conv self)] @ topo (wrn_layer1 self) @ topo (wrn_layer2 self)
           @ topo (wrn_layer3 self) @ [Call (wrn_bn self)] @ [Call (wrn_relu self)]
           @ [Call (wrn_avgpool self)] @ [View] @ [Call (wrn_fc self)])"
    unfolding WideResNet16_8_forward_def
    by (rule traced_bnd traced_view traced_call forward_traced)+
  then show ?thesis by (simp add: WideResNet16_8_topo_def)
qed

text \<open>
  C5. The layer applications of a forward pass are read off the module alone. For every
  module built from blocks and sequences, and for \<^verbatim>\<open>sn_MLP\<close>, \<^verbatim>\<open>sn_LinearLayer\<close>,
  \<^verbatim>\<open>sn_CNN\<close>, \<^verbatim>\<open>sn_Resnet50\<close> and \<^verbatim>\<open>WideResNet16_8\<close>: whatever the layers compute
  (in whatever mode), whatever the input tensor and the store, the events of a pass that
  returns are the topology of the module, and the events of a pass in which a layer
  raises are a prefix of it. The topology is a function of the configuration fixed at
  construction (the \<^verbatim>\<open>standard\<close> flag, the presence of a downsample module, the
  \<^verbatim>\<open>use_conv1x1\<close> flag, the layers themselves). In particular two passes that return on
  the same module apply the same layers in the same order.
\<close>

theorem forward_topology_fixed:
  "traced s (forward T m x s) (topo m)
   \<and> traced s (sn_MLP_forward T mlp x s) (sn_MLP_topo mlp)
   \<and> traced s (sn_LinearLayer_forward T lin x s) (sn_LinearLayer_topo lin)
   \<and> traced s (sn_CNN_forward T cnn x s) (sn_CNN_topo cnn)
   \<and> traced s (sn_Resnet50_forward T r50 x s) (sn_Resnet50_topo r50)
   \<and> traced s (WideResNet16_8_forward T wrn x s) (WideResNet16_8_topo wrn)
   \<and> (returns (forward T m x s) \<and> returns (forward T' m x' s') \<longrightarrow>
        new_events s (forward T m x s) = new_events s' (forward T' m x' s'))
   \<and> (returns (sn_CNN_forward T cnn x s) \<and> returns (sn_CNN_forward T' cnn x' s') \<longrightarrow>
        new_events s (sn_CNN_forward T cnn x s) = new_events s' (sn_CNN_forward T' cnn x' s'))"
  by (auto simp: forward_traced sn_MLP_traced sn_LinearLayer_traced sn_CNN_traced
        sn_Resnet50_traced WideResNet16_8_traced
        intro: traced_same_events [OF forward_traced forward_traced]
               traced_same_events [OF sn_CNN_traced sn_CNN_traced])


theorem forward_topology_fixed_witness:
  "returns (forward (shapes Inr False) (BasicBlock_init 16 16 1 None) 0 (input ([2, 16, 8, 8], Contiguous)))
   \<and> returns (forward (shapes Inr True) (BasicBlock_init 16 16 1 None) 0 (input ([4, 16, 5, 5], ChannelsLast)))
   \<and> new_events (input ([2, 16, 8, 8], Contiguous))
        (forward (shapes Inr False) (BasicBlock_init 16 16 1 None) 0 (input ([2, 16, 8, 8], Contiguous)))
      = new_events (input ([4, 16, 5, 5], ChannelsLast))
        (forward (shapes Inr True) (BasicBlock_init 16 16 1 None) 0 (input ([4, 16, 5, 5], ChannelsLast)))
   \<and> new_events (input ([2, 16, 8, 8], Contiguous))
        (forward (shapes Inr False) (BasicBlock_init 16 16 1 None) 0 (input ([2, 16, 8, 8], Contiguous)))
      = [Call (Conv2d 16 16 3 1 1 False), Call (BatchNorm2d 16 True), Call (ReLU True),
         Call (Conv2d 16 16 3 1 1 False), Call (BatchNorm2d 16 True), IAdd, Call (ReLU True)]"
proof -
  let ?B = "BasicBlock_init 16 16 1 None"
  let ?r1 = "forward (shapes Inr False) ?B 0 (input ([2, 16, 8, 8], Contiguous))"
  let ?r2 = "forward (shapes Inr True) ?B 0 (input ([4, 16, 5, 5], ChannelsLast))"
  have r1: "returns ?r1"
    by (simp add: input_def shapes_def call_def iadd_def bnd_def ret_def Let_def ebind_def
          conv3x3_def conv_out_def conv_dims_def BasicBlock_init_def)
  have r2: "returns ?r2"
    by (simp add: input_def shapes_def call_def iadd_def bnd_def ret_def Let_def ebind_def
          conv3x3_def conv_out_def conv_dims_def BasicBlock_init_def)
  note fixed = forward_topology_fixed [where s = "input ([2, 16, 8, 8], Contiguous)"
      and T = "shapes Inr False" and m = ?B and x = 0 and T' = "shapes Inr True" and x' = 0
      and s' = "input ([4, 16, 5, 5], ChannelsLast)"]
  have same: "new_events (input ([2, 16, 8, 8], Contiguous)) ?r1 = new_events (input ([4, 16, 5, 5], ChannelsLast)) ?r2"
    using fixed r1 r2 by blast
  have "traced (input ([2, 16, 8, 8], Contiguous)) ?r1 (topo ?B)" using fixed by blast
  then have "new_events (input ([2, 16, 8, 8], Contiguous)) ?r1 = topo ?B"
    using r1 traced_new_events by blast
  then show ?thesis using r1 r2 same by (simp add: BasicBlock_init_def conv3x3_def)
qed

subsection \<open>\<^verbatim>\<open>sn_LinearLayer\<close>\<close>

lemma sn_LinearLayer_outcome:
  assumes "x < nxt s"
  shows "outcome (sn_LinearLayer_forward T self x s) =
     ebind (sem T (lin_bn0 self) (val s x)) (\<lambda>a.
     ebind (flat_copy T a) (\<lambda>a.
     sem T (lin_fc1 self) a))"
  unfolding sn_LinearLayer_forward_def
  by (rule chain_call [OF assms], rule chain_reshape, rule outcome_call)

lemma sn_LinearLayer_init_eq:
  assumes "0 \<le> 3 * M_coefficient * N_coefficient * n_coefficients" "0 \<le> num_classes"
    "0 \<le> n_coefficients"
  shows "sn_LinearLayer_init num_classes n_coefficients M_coefficient N_coefficient =
     Inr \<lparr>lin_n_coefficients = n_coefficients, lin_num_classes = num_classes,
          lin_fc1 = Linear (3 * M_coefficient * N_coefficient * n_coefficients) num_classes,
          lin_bn0 = BatchNorm2d (n_coefficients * 3) True\<rparr>"
  using assms
  by (simp add: sn_LinearLayer_init_def getattr_def nn_Linear_def nn_BatchNorm2d_def)

lemma shapes_sel:
  "sem (shapes bb tr) = layer_shape bb tr"
  "add (shapes bb tr) = add_shape"
  "flat (shapes bb tr) = view_flat"
  "flat_copy (shapes bb tr) = reshape_flat"
  by (simp_all add: shapes_def)

lemma ebind_Inr: "ebind (Inr v) f = f v"
  by (simp add: ebind_def)

lemma ebind_Inl: "ebind (Inl e) f = Inl e"
  by (simp add: ebind_def)

text \<open>
  C7 (amended). \<^verbatim>\<open>sn_LinearLayer\<close> is a linear classifier over scattering input. On
  every input of shape \<open>(batch, 3 * n_coefficients, M, N)\<close> with a batch and
  \<open>n_coefficients\<close> of at least one, whatever its memory layout, in evaluation mode or
  with \<open>batch * M * N \<noteq> 1\<close>, the forward pass applies the batch normalisation \<open>bn0\<close>
  over the \<open>3 * n_coefficients\<close> channels, reshapes to
  \<open>(batch, 3 * M * N * n_coefficients)\<close>, applies the linear layer \<open>fc1\<close> and returns
  shape \<open>(batch, num_classes)\<close>; these three are all it applies.
\<close>

theorem sn_LinearLayer_forward_shape:
  assumes "x < nxt s" and "val s x = ([batch, 3 * n, M, N], f)"
    and "0 < batch" "0 < n"
    and "tr \<longrightarrow> batch * M * N \<noteq> 1"
  shows "\<exists>self. sn_LinearLayer_init (int num_classes) (int n) (int M) (int N) = Inr self
     \<and> sem (shapes bb tr) (lin_bn0 self) ([batch, 3 * n, M, N], f)
         = Inr ([batch, 3 * n, M, N], f)
     \<and> flat_copy (shapes bb tr) ([batch, 3 * n, M, N], f)
         = Inr ([batch, 3 * M * N * n], Contiguous)
     \<and> sem (shapes bb tr) (lin_fc1 self) ([batch, 3 * M * N * n], Contiguous)
         = Inr ([batch, num_classes], Contiguous)
     \<and> outcome (sn_LinearLayer_forward (shapes bb tr) self x s)
         = Inr ([batch, num_classes], Contiguous)
     \<and> new_events s (sn_LinearLayer_forward (shapes bb tr) self x s)
         = [Call (BatchNorm2d (3 * int n) True), Reshape,
            Call (Linear (3 * int M * int N * int n) (int num_classes))]"
proof -
  let ?self = "\<lparr>lin_n_coefficients = int n, lin_num_classes = int num_classes,
          lin_fc1 = Linear (3 * int M * int N * int n) (int num_classes),
          lin_bn0 = BatchNorm2d (int n * 3) True\<rparr>"
  let ?T = "shapes bb tr"
  have i: "sn_LinearLayer_init (int num_classes) (int n) (int M) (int N) = Inr ?self"
    by (rule sn_LinearLayer_init_eq) simp_all
  have bn: "sem ?T (lin_bn0 ?self) ([batch, 3 * n, M, N], f) = Inr ([batch, 3 * n, M, N], f)"
    using assms by (simp add: shapes_sel ebind_def)
  have fl: "flat_copy ?T ([batch, 3 * n, M, N], f) = Inr ([batch, 3 * M * N * n], Contiguous)"
    using assms by (simp add: shapes_sel mult_ac)
  have fc: "sem ?T (lin_fc1 ?self) ([batch, 3 * M * N * n], Contiguous)
            = Inr ([batch, num_classes], Contiguous)"
    by (simp add: shapes_sel ebind_def)
  have out: "outcome (sn_LinearLayer_forward ?T ?self x s) = Inr ([batch, num_classes], Contiguous)"
    unfolding sn_LinearLayer_outcome [OF assms(1)] assms(2)
    by (simp only: bn fl fc ebind_Inr)
  then have "returns (sn_LinearLayer_forward ?T ?self x s)"
    by (cases "sn_LinearLayer_forward ?T ?self x s" rule: run_cases) auto
  then have ev: "new_events s (sn_LinearLayer_forward ?T ?self x s) = sn_LinearLayer_topo ?self"
    using traced_new_events [OF sn_LinearLayer_traced] by blast
  show ?thesis
    by (rule exI [of _ ?self])
       (use i bn fl fc out ev in \<open>simp add: sn_LinearLayer_topo_def mult_ac\<close>)
qed

theorem sn_LinearLayer_forward_shape_witness:
  "(0::nat) < nxt (input ([128, 243, 8, 8::nat], ChannelsLast))
   \<and> val (input ([128, 243, 8, 8::nat], ChannelsLast)) 0 = ([128, 3 * 81, 8, 8], ChannelsLast)
   \<and> (128::nat) * 8 * 8 \<noteq> 1
   \<and> sn_LinearLayer_init 10 81 8 8
       = Inr \<lparr>lin_n_coefficients = 81, lin_num_classes = 10,
              lin_fc1 = Linear 15552 10, lin_bn0 = BatchNorm2d 243 True\<rparr>
   \<and> outcome (sn_LinearLayer_forward (shapes Inr True)
         \<lparr>lin_n_coefficients = 81, lin_num_classes = 10,
          lin_fc1 = Linear 15552 10, lin_bn0 = BatchNorm2d 243 True\<rparr>
         0 (input ([128, 243, 8, 8], ChannelsLast))) = Inr ([128, 10], Contiguous)"
proof -
  have i: "sn_LinearLayer_init 10 81 8 8
       = Inr \<lparr>lin_n_coefficients = 81, lin_num_classes = 10,
              lin_fc1 = Linear 15552 10, lin_bn0 = BatchNorm2d 243 True\<rparr>"
    by (simp add: sn_LinearLayer_init_eq)
  have h: "(0::nat) < nxt (input ([128, 243, 8, 8::nat], ChannelsLast))"
    "val (input ([128, 243, 8, 8::nat], ChannelsLast)) 0 = ([128, 3 * 81, 8, 8], ChannelsLast)"
    by (simp_all add: input_def)
  from sn_LinearLayer_forward_shape [OF h, of True 10 Inr]
  obtain self where
    "sn_LinearLayer_init (int 10) (int 81) (int 8) (int 8) = Inr self"
    "outcome (sn_LinearLayer_forward (shapes Inr True) self 0
       (input ([128, 243, 8, 8], ChannelsLast))) = Inr ([128, 10], Contiguous)"
    by auto
  then show ?thesis using i h by simp
qed

text \<open>
  The claim as stated fails on an empty batch, where the inferred dimension of the
  reshape is ambiguous; in training mode on a single value per channel, which the
  batch normalisation rejects; and without coefficients, where the batch normalisation
  has no scale to apply.
\<close>

theorem sn_LinearLayer_forward_counterexample:
  "sn_LinearLayer_init 10 1 1 1
     = Inr \<lparr>lin_n_coefficients = 1, lin_num_classes = 10,
            lin_fc1 = Linear 3 10, lin_bn0 = BatchNorm2d 3 True\<rparr>
   \<and> outcome (sn_LinearLayer_forward (shapes Inr False)
         \<lparr>lin_n_coefficients = 1, lin_num_classes = 10,
          lin_fc1 = Linear 3 10, lin_bn0 = BatchNorm2d 3 True\<rparr>
         0 (input ([0, 3, 1, 1], Contiguous)))
       = Inl (RuntimeError ''the unspecified dimension size -1 is ambiguous'')
   \<and> outcome (sn_LinearLayer_forward (shapes Inr True)
         \<lparr>lin_n_coefficients = 1, lin_num_classes = 10,
          lin_fc1 = Linear 3 10, lin_bn0 = BatchNorm2d 3 True\<rparr>
         0 (input ([1, 3, 1, 1], Contiguous)))
       = Inl (ValueError ''expected more than 1 value per channel when training'')
   \<and> sn_LinearLayer_init 10 0 8 8
     = Inr \<lparr>lin_n_coefficients = 0, lin_num_classes = 10,
            lin_fc1 = Linear 0 10, lin_bn0 = BatchNorm2d 0 True\<rparr>
   \<and> outcome (sn_LinearLayer_forward (shapes Inr False)
         \<lparr>lin_n_coefficients = 0, lin_num_classes = 10,
          lin_fc1 = Linear 0 10, lin_bn0 = BatchNorm2d 0 True\<rparr>
         0 (input ([2, 0, 8, 8], Contiguous)))
       = Inl IndexError"
  by (simp add: sn_LinearLayer_init_eq sn_LinearLayer_outcome input_def shapes_sel ebind_def)
subsection \<open>\<^verbatim>\<open>sn_Resnet50\<close>\<close>

lemma resnet_outcome:
  assumes "x < nxt s"
  shows "outcome (resnet_forward T m x s)
         = ebind (sem T (rn_features m) (val s x)) (sem T (rn_fc m))"
  unfolding resnet_forward_def
  by (rule chain_call [OF assms], rule outcome_call)

text \<open>
  C6. Whatever model the loader of the pretrained-model repository returns for
  \<^verbatim>\<open>pretrained=True\<close>, provided its \<^verbatim>\<open>fc\<close> is a linear layer: the constructor keeps
  that model, replaces only \<^verbatim>\<open>fc\<close> by a linear layer from the same number of input
  features to \<open>num_classes\<close>, and leaves the feature extractor as loaded. The forward
  pass is the wrapped model's; on an input from which the feature extractor yields
  \<open>(batch, num_ftrs)\<close> it returns shape \<open>(batch, num_classes)\<close>.
\<close>

theorem sn_Resnet50_wraps:
  assumes "rn_fc (loader True) = Linear num_ftrs outf"
  shows "\<exists>self. sn_Resnet50_init loader num_classes = Inr self
     \<and> r50_model_ft self = (loader True)\<lparr>rn_fc := Linear num_ftrs num_classes\<rparr>
     \<and> rn_features (r50_model_ft self) = rn_features (loader True)
     \<and> rn_fc (r50_model_ft self) = Linear num_ftrs num_classes
     \<and> r50_num_classes self = num_classes
     \<and> sn_Resnet50_forward T self x s = resnet_forward T (r50_model_ft self) x s
     \<and> (x < nxt s' \<and> 0 \<le> num_classes
          \<and> sem (shapes bb tr) (rn_features (loader True)) (val s' x)
              = Inr ([batch, nat num_ftrs], f) \<and> 0 \<le> num_ftrs
        \<longrightarrow> outcome (sn_Resnet50_forward (shapes bb tr) self x s')
            = Inr ([batch, nat num_classes], Contiguous))"
proof -
  let ?self = "\<lparr>r50_model_ft = (loader True)\<lparr>rn_fc := Linear num_ftrs num_classes\<rparr>,
                 r50_num_classes = num_classes\<rparr>"
  have i: "sn_Resnet50_init loader num_classes = Inr ?self"
    using assms by (simp add: sn_Resnet50_init_def)
  have run: "outcome (sn_Resnet50_forward (shapes bb tr) ?self x s')
             = Inr ([batch, nat num_classes], Contiguous)"
    if "x < nxt s'" "0 \<le> num_classes" "0 \<le> num_ftrs"
      "sem (shapes bb tr) (rn_features (loader True)) (val s' x) = Inr ([batch, nat num_ftrs], f)"
    using that by (simp add: sn_Resnet50_forward_def resnet_outcome ebind_def shapes_def)
  show ?thesis
    by (rule exI [of _ ?self]) (use i run in \<open>simp add: sn_Resnet50_forward_def\<close>)
qed

theorem sn_Resnet50_wraps_witness:
  "rn_fc ((\<lambda>pre. \<lparr>rn_features = Pretrained ''resnet50'' pre, rn_fc = Linear 2048 1000\<rparr>) True)
     = Linear 2048 1000
   \<and> sn_Resnet50_init
        (\<lambda>pre. \<lparr>rn_features = Pretrained ''resnet50'' pre, rn_fc = Linear 2048 1000\<rparr>) 10
      = Inr \<lparr>r50_model_ft = \<lparr>rn_features = Pretrained ''resnet50'' True, rn_fc = Linear 2048 10\<rparr>,
             r50_num_classes = 10\<rparr>
   \<and> (0::nat) < nxt (input ([4, 3, 224, 224::nat], Contiguous))
   \<and> sem (shapes (\<lambda>t. Inr ([hd (fst t), 2048], Contiguous)) False) (Pretrained ''resnet50'' True)
        (val (input ([4, 3, 224, 224], Contiguous)) 0) = Inr ([4, nat 2048], Contiguous)
   \<and> outcome (sn_Resnet50_forward (shapes (\<lambda>t. Inr ([hd (fst t), 2048], Contiguous)) False)
        \<lparr>r50_model_ft = \<lparr>rn_features = Pretrained ''resnet50'' True, rn_fc = Linear 2048 10\<rparr>,
         r50_num_classes = 10\<rparr>
        0 (input ([4, 3, 224, 224], Contiguous))) = Inr ([4, nat 10], Contiguous)"
proof -
  let ?L = "\<lambda>pre. \<lparr>rn_features = Pretrained ''resnet50'' pre, rn_fc = Linear 2048 1000\<rparr>"
  have a: "rn_fc (?L True) = Linear 2048 1000" by simp
  have h: "(0::nat) < nxt (input ([4, 3, 224, 224::nat], Contiguous))"
    "sem (shapes (\<lambda>t. Inr ([hd (fst t), 2048], Contiguous)) False) (Pretrained ''resnet50'' True)
        (val (input ([4, 3, 224, 224], Contiguous)) 0) = Inr ([4, nat 2048], Contiguous)"
    by (simp_all add: input_def shapes_def)
  from sn_Resnet50_wraps [where loader = ?L and num_ftrs = 2048 and outf = 1000
      and num_classes = 10 and x = 0 and s' = "input ([4, 3, 224, 224], Contiguous)"
      and bb = "\<lambda>t. Inr ([hd (fst t), 2048], Contiguous)" and tr = False and batch = 4 and f = Contiguous] a
  obtain self where s:
    "sn_Resnet50_init ?L 10 = Inr self"
    "r50_model_ft self = (?L True)\<lparr>rn_fc := Linear 2048 10\<rparr>"
    "r50_num_classes self = 10"
    "outcome (sn_Resnet50_forward (shapes (\<lambda>t. Inr ([hd (fst t), 2048], Contiguous)) False) self 0
       (input ([4, 3, 224, 224], Contiguous))) = Inr ([4, nat 10], Contiguous)"
    using h by auto
  have eq: "self = \<lparr>r50_model_ft = \<lparr>rn_features = Pretrained ''resnet50'' True, rn_fc = Linear 2048 10\<rparr>,
             r50_num_classes = 10\<rparr>"
    using s(2,3) by (cases self) simp
  show ?thesis using s(1,4) [unfolded eq] h by simp
qed

subsection \<open>\<^verbatim>\<open>sn_CNN\<close>\<close>
































subsection \<open>\<^verbatim>\<open>sn_MLP\<close>: the forward pass\<close>

lemma view_flat_2d: "view_flat t = Inr u \<Longrightarrow> \<exists>b m. u = ([b, m], Contiguous)"
  by (cases t rule: reshape_flat.cases) (auto simp add: view_flat_def split: if_splits)

lemma batchnorm_2d:
  "layer_shape bb tr (BatchNorm2d nf aff) ([b, m], f) = Inl (ValueError ''expected 4D input'')"
  by (simp add: ebind_def)

text \<open>
  A second obstacle, on any object that carried the declared stack: the forward pass
  flattens its input to two dimensions and then applies the stack, whose first layer is a
  \<^verbatim>\<open>BatchNorm2d\<close>; that layer accepts four-dimensional input only.
\<close>

lemma sn_MLP_forward_raises:
  assumes "mlp_layers self = Sequential (Layer (BatchNorm2d nf aff) # rest)"
  shows "\<exists>e. outcome (sn_MLP_forward (shapes bb tr) self x s) = Inl e"
proof (cases "view (shapes bb tr) x s" rule: run_cases)
  case (raises e s1)
  then show ?thesis by (simp add: sn_MLP_forward_def bnd_Inl)
next
  case (returns r s1)
  have "outcome (view (shapes bb tr) x s) = view_flat (val s x)"
    by (simp add: outcome_view shapes_sel)
  then have "view_flat (val s x) = Inr (val s1 r)" using returns by simp
  then obtain b m where v: "val s1 r = ([b, m], Contiguous)" using view_flat_2d by blast
  have "outcome (call (shapes bb tr) (BatchNorm2d nf aff) r s1)
        = Inl (ValueError ''expected 4D input'')"
    by (simp only: outcome_call shapes_sel v batchnorm_2d)
  then obtain s2 where
    c: "call (shapes bb tr) (BatchNorm2d nf aff) r s1 = (Inl (ValueError ''expected 4D input''), s2)"
    by (cases "call (shapes bb tr) (BatchNorm2d nf aff) r s1" rule: run_cases) auto
  have "forward (shapes bb tr) (mlp_layers self) r s1
        = (Inl (ValueError ''expected 4D input''), s2)"
    using c by (simp add: assms bnd_Inl)
  then show ?thesis
    using returns by (simp add: sn_MLP_forward_def bnd_Inr)
qed

end
